theory Spec2Isabelle
  imports Main
begin

text \<open>
  A shallow embedding of the Codewars practice server: the catalog client
  (\<^verbatim>\<open>src/api_client.py\<close>) and the tools with the exercise materializer (\<^verbatim>\<open>src/main.py\<close>).
  Exceptions are values of a sum type, the files and the remote service are fields of an
  explicit world that every operation receives and returns.
\<close>

section \<open>Python strings\<close>

text \<open>
  A Python \<^verbatim>\<open>str\<close> is modelled by the bytes of its UTF-8 encoding, as a \<^typ>\<open>string\<close>.
  The character tests below are those of \<^verbatim>\<open>str.isalnum\<close>, \<^verbatim>\<open>str.isdigit\<close> and
  \<^verbatim>\<open>str.lower\<close> on the ASCII range, where one byte is one code point. Python decides
  these tests for code points above 127 by the Unicode database, which is not part of
  the repository: the statement about \<^verbatim>\<open>sanitize_folder_name\<close> therefore assumes an ASCII
  title. The regular expressions of the source name ASCII classes only, so every byte
  above 127 is a separator for them, as every code point above 127 is in Python.
\<close>

definition ascii_digits :: string where
  "ascii_digits = ''0123456789''"

definition ascii_uppercase :: string where
  "ascii_uppercase = ''ABCDEFGHIJKLMNOPQRSTUVWXYZ''"

definition ascii_lowercase :: string where
  "ascii_lowercase = ''abcdefghijklmnopqrstuvwxyz''"

definition is_ascii :: "char \<Rightarrow> bool" where
  "is_ascii c = ((of_char c :: nat) < 128)"

definition py_isdigit :: "char \<Rightarrow> bool" where
  "py_isdigit c = (c \<in> set ascii_digits)"

definition py_isalnum :: "char \<Rightarrow> bool" where
  "py_isalnum c = (c \<in> set ascii_digits \<or> c \<in> set ascii_uppercase \<or> c \<in> set ascii_lowercase)"

definition py_lower_char :: "char \<Rightarrow> char" where
  "py_lower_char c = (case map_of (zip ascii_uppercase ascii_lowercase) c of Some l \<Rightarrow> l | None \<Rightarrow> c)"

definition py_lower :: "string \<Rightarrow> string" where
  "py_lower s = map py_lower_char s"

text \<open>
  \<^verbatim>\<open>str.strip()\<close> removes the code points for which \<^verbatim>\<open>str.isspace\<close> holds from both
  ends. The table lists their UTF-8 encodings: U+0009 to U+000D, U+001C to U+0020,
  U+0085, U+00A0, U+1680, U+2000 to U+200A, U+2028, U+2029, U+202F, U+205F, U+3000.
\<close>

definition whitespace_utf8 :: "string list" where
  "whitespace_utf8 =
     [[CHR 0x09], [CHR 0x0A], [CHR 0x0B], [CHR 0x0C], [CHR 0x0D],
      [CHR 0x1C], [CHR 0x1D], [CHR 0x1E], [CHR 0x1F], [CHR 0x20],
      [CHR 0xC2, CHR 0x85], [CHR 0xC2, CHR 0xA0], [CHR 0xE1, CHR 0x9A, CHR 0x80],
      [CHR 0xE2, CHR 0x80, CHR 0x80], [CHR 0xE2, CHR 0x80, CHR 0x81],
      [CHR 0xE2, CHR 0x80, CHR 0x82], [CHR 0xE2, CHR 0x80, CHR 0x83],
      [CHR 0xE2, CHR 0x80, CHR 0x84], [CHR 0xE2, CHR 0x80, CHR 0x85],
      [CHR 0xE2, CHR 0x80, CHR 0x86], [CHR 0xE2, CHR 0x80, CHR 0x87],
      [CHR 0xE2, CHR 0x80, CHR 0x88], [CHR 0xE2, CHR 0x80, CHR 0x89],
      [CHR 0xE2, CHR 0x80, CHR 0x8A], [CHR 0xE2, CHR 0x80, CHR 0xA8],
      [CHR 0xE2, CHR 0x80, CHR 0xA9], [CHR 0xE2, CHR 0x80, CHR 0xAF],
      [CHR 0xE2, CHR 0x81, CHR 0x9F], [CHR 0xE3, CHR 0x80, CHR 0x80]]"

text \<open>Removes, from the front of \<open>s\<close>, entries of the table for as long as one is a prefix.\<close>

function strip_front :: "string list \<Rightarrow> string \<Rightarrow> string" where
  "strip_front tbl s =
     (case find (\<lambda>w. take (length w) s = w) tbl of
        None \<Rightarrow> s
      | Some w \<Rightarrow> if w = [] then s else strip_front tbl (drop (length w) s))"
  by pat_completeness auto
termination
proof (relation "measure (\<lambda>(tbl, s). length s)")
  show "wf (measure (\<lambda>(tbl, s). length s))" by simp
next
  fix tbl :: "string list" and s w :: string
  assume f: "find (\<lambda>w. take (length w) s = w) tbl = Some w" and ne: "w \<noteq> []"
  from f have "take (length w) s = w" by (auto simp: find_Some_iff)
  with ne have "s \<noteq> []" by auto
  with ne show "((tbl, drop (length w) s), (tbl, s)) \<in> measure (\<lambda>(tbl, s). length s)"
    by (cases w) auto
qed

definition py_strip :: "string \<Rightarrow> string" where
  "py_strip s = rev (strip_front (map rev whitespace_utf8) (rev (strip_front whitespace_utf8 s)))"

text \<open>\<^verbatim>\<open>s.replace(old, new)\<close> for one-character \<open>old\<close> and \<open>new\<close>.\<close>

definition py_replace_char :: "char \<Rightarrow> char \<Rightarrow> string \<Rightarrow> string" where
  "py_replace_char old new s = map (\<lambda>c. if c = old then new else c) s"

text \<open>\<^verbatim>\<open>t.isalnum()\<close> on a whole string: non-empty and every character alphanumeric.\<close>

definition py_str_isalnum :: "string \<Rightarrow> bool" where
  "py_str_isalnum t = (t \<noteq> [] \<and> list_all py_isalnum t)"

text \<open>\<^verbatim>\<open>"_".join(words)\<close>.\<close>

fun py_join :: "string \<Rightarrow> string list \<Rightarrow> string" where
  "py_join sep [] = []"
| "py_join sep [x] = x"
| "py_join sep (x # y # ys) = x @ sep @ py_join sep (y # ys)"

text \<open>\<^verbatim>\<open>needle in s\<close> for two strings: \<open>needle\<close> occurs as a contiguous part of \<open>s\<close>.\<close>

fun py_substring :: "string \<Rightarrow> string \<Rightarrow> bool" where
  "py_substring needle [] = (needle = [])"
| "py_substring needle (c # cs) =
     (take (length needle) (c # cs) = needle \<or> py_substring needle cs)"

text \<open>The code points of a string: each byte with the UTF-8 continuation bytes after it.\<close>

definition is_continuation :: "char \<Rightarrow> bool" where
  "is_continuation c = (128 \<le> (of_char c :: nat) \<and> (of_char c :: nat) < 192)"

function code_points :: "string \<Rightarrow> string list" where
  "code_points [] = []"
| "code_points (c # cs) =
     (c # takeWhile is_continuation cs) # code_points (dropWhile is_continuation cs)"
  by pat_completeness auto
termination
  by (relation "measure length") (auto simp: le_imp_less_Suc length_dropWhile_le)

text \<open>Decimal rendering of a number, as \<^verbatim>\<open>str(n)\<close> gives it.\<close>

definition digit_char :: "nat \<Rightarrow> char" where
  "digit_char d = ascii_digits ! (d mod 10)"

function str_nat :: "nat \<Rightarrow> string" where
  "str_nat n = (if n < 10 then [digit_char n] else str_nat (n div 10) @ [digit_char (n mod 10)])"
  by pat_completeness auto
termination
  by (relation "measure id") auto

definition str_int :: "int \<Rightarrow> string" where
  "str_int i = (if i < 0 then ''-'' @ str_nat (nat (- i)) else str_nat (nat i))"

section \<open>Names derived from a kata title\<close>

text \<open>
  \<^verbatim>\<open>sanitize_folder_name\<close>, main.py lines 46 to 50. The generator expression runs over
  the items of \<open>name\<close> (for a \<^verbatim>\<open>str\<close>, its code points), keeps
  an item when it is alphanumeric or one of space, hyphen, underscore, and replaces it
  by the empty string otherwise; the joined text is stripped, its spaces become
  underscores, and it is lowercased.
\<close>

definition keep_item :: "string \<Rightarrow> string" where
  "keep_item t = (if py_str_isalnum t \<or> t \<in> {'' '', ''-'', ''_''} then t else [])"

definition cleaned_name :: "string list \<Rightarrow> string" where
  "cleaned_name items = py_strip (concat (map keep_item items))"

definition sanitize_items :: "string list \<Rightarrow> string" where
  "sanitize_items items = py_lower (py_replace_char (CHR '' '') (CHR ''_'') (cleaned_name items))"

definition sanitize_folder_name :: "string \<Rightarrow> string" where
  "sanitize_folder_name name = sanitize_items (code_points name)"

text \<open>
  \<^verbatim>\<open>generate_function_name\<close>, main.py lines 71 to 77. \<open>re_split_nonalnum\<close> is
  \<^verbatim>\<open>re.split(r'[^a-zA-Z0-9]+', name)\<close>: the pieces of \<open>name\<close> between the maximal runs
  of characters outside the class, with an empty piece where the string starts or ends
  with such a run.
\<close>

definition re_alnum :: "char \<Rightarrow> bool" where
  "re_alnum c = (c \<in> set ascii_lowercase \<or> c \<in> set ascii_uppercase \<or> c \<in> set ascii_digits)"

function re_split_nonalnum :: "string \<Rightarrow> string list" where
  "re_split_nonalnum s =
     (let w = takeWhile re_alnum s; r = dropWhile re_alnum s
      in if r = [] then [w] else w # re_split_nonalnum (dropWhile (\<lambda>c. \<not> re_alnum c) r))"
  by pat_completeness auto
termination
proof (relation "measure length")
  show "wf (measure length)" by simp
next
  fix s w r :: string
  assume r: "r = dropWhile re_alnum s" and ne: "r \<noteq> []"
  have "length (dropWhile (\<lambda>c. \<not> re_alnum c) r) < length r"
  proof (cases r)
    case Nil with ne show ?thesis by simp
  next
    case (Cons c cs)
    with r have "\<not> re_alnum c" by (metis hd_dropWhile list.sel(1) list.distinct(1))
    with Cons show ?thesis by (simp add: le_imp_less_Suc length_dropWhile_le)
  qed
  also have "length r \<le> length s" by (simp add: r length_dropWhile_le)
  finally show "(dropWhile (\<lambda>c. \<not> re_alnum c) r, s) \<in> measure length" by simp
qed

definition generate_function_name :: "string \<Rightarrow> string" where
  "generate_function_name name =
     (let words = re_split_nonalnum name;
          snake_case_name = py_join ''_'' (map py_lower (filter (\<lambda>word. word \<noteq> []) words))
      in if snake_case_name \<noteq> [] \<and> py_isdigit (hd snake_case_name)
         then ''kata_'' @ snake_case_name
         else snake_case_name)"

text \<open>
  The specification's reading of the same step, written without the regular
  expression: the surviving tokens of a title are its maximal runs of characters of
  \<^verbatim>\<open>[a-zA-Z0-9]\<close>, collected left to right (\<open>cur\<close> is the run being read).
\<close>

fun alnum_runs :: "string \<Rightarrow> string \<Rightarrow> string list" where
  "alnum_runs cur [] = (if cur = [] then [] else [cur])"
| "alnum_runs cur (c # cs) =
     (if re_alnum c then alnum_runs (cur @ [c]) cs
      else (if cur = [] then [] else [cur]) @ alnum_runs [] cs)"

text \<open>The character set the specification gives for a folder slug.\<close>

definition slug_charset :: "char set" where
  "slug_charset = set ascii_lowercase \<union> set ascii_digits \<union> {CHR ''_''}"

section \<open>Python values and exceptions\<close>

text \<open>
  The values the tools handle come out of \<^verbatim>\<open>json.loads\<close> and \<^verbatim>\<open>response.json()\<close>:
  \<^verbatim>\<open>None\<close>, booleans, numbers, strings, lists and dictionaries. A dictionary is an
  association list read with \<^const>\<open>map_of\<close>. Numbers are the integers; a JSON number with
  a fraction is not represented.
\<close>

datatype json =
    JNull
  | JBool bool
  | JNum int
  | JStr string
  | JArr "json list"
  | JObj "(string \<times> json) list"

text \<open>
  The exceptions that the source raises or catches; all of them are subclasses of
  \<^verbatim>\<open>Exception\<close>. \<open>JSONDecodeError\<close> is a subclass of \<open>ValueError\<close>, \<open>OSError\<close> is the
  class that \<^verbatim>\<open>IOError\<close> names, \<open>TimeoutException\<close>, \<open>ConnectError\<close> and
  \<open>HTTPStatusError\<close> (with the response's status code and text) are those of the HTTP
  library, \<open>ReError\<close> is \<^verbatim>\<open>re.error\<close>, and \<open>OtherException\<close> stands for any other exception a library raises. Each
  carries the text that \<^verbatim>\<open>str(e)\<close> returns; for \<open>KeyError\<close> that is the key, shown quoted.
\<close>

datatype exn =
    KeyError string
  | TypeError string
  | AttributeError string
  | ValueError string
  | JSONDecodeError string
  | OSError string
  | TimeoutException string
  | ConnectError string
  | HTTPStatusError nat string
  | ReError string
  | OtherException string

text \<open>
  \<^verbatim>\<open>str(e)\<close>. The source never prints an \<open>HTTPStatusError\<close> this way: the handler that
  catches it prints the status code and the response text.
\<close>

fun str_exn :: "exn \<Rightarrow> string" where
  "str_exn (KeyError k) = [CHR 0x27] @ k @ [CHR 0x27]"
| "str_exn (TypeError m) = m"
| "str_exn (AttributeError m) = m"
| "str_exn (ValueError m) = m"
| "str_exn (JSONDecodeError m) = m"
| "str_exn (OSError m) = m"
| "str_exn (TimeoutException m) = m"
| "str_exn (ConnectError m) = m"
| "str_exn (HTTPStatusError status body) = ''HTTP status '' @ str_nat status"
| "str_exn (ReError m) = m"
| "str_exn (OtherException m) = m"

fun type_name :: "json \<Rightarrow> string" where
  "type_name JNull = ''NoneType''"
| "type_name (JBool b) = ''bool''"
| "type_name (JNum n) = ''int''"
| "type_name (JStr s) = ''str''"
| "type_name (JArr xs) = ''list''"
| "type_name (JObj kvs) = ''dict''"

definition quoted :: "string \<Rightarrow> string" where
  "quoted s = [CHR 0x27] @ s @ [CHR 0x27]"

text \<open>Truth value of an object, as \<^verbatim>\<open>if x\<close>, \<^verbatim>\<open>not x\<close> and \<^verbatim>\<open>x or y\<close> test it.\<close>

fun py_truthy :: "json \<Rightarrow> bool" where
  "py_truthy JNull = False"
| "py_truthy (JBool b) = b"
| "py_truthy (JNum n) = (n \<noteq> 0)"
| "py_truthy (JStr s) = (s \<noteq> [])"
| "py_truthy (JArr xs) = (xs \<noteq> [])"
| "py_truthy (JObj kvs) = (kvs \<noteq> [])"

text \<open>
  \<^verbatim>\<open>key in x\<close> for a string \<open>key\<close>: a key of a dictionary, an element of a list, a
  substring of a string; a \<open>TypeError\<close> on anything else.
\<close>

fun py_contains :: "string \<Rightarrow> json \<Rightarrow> exn + bool" where
  "py_contains key (JObj kvs) = Inr (map_of kvs key \<noteq> None)"
| "py_contains key (JArr xs) = Inr (JStr key \<in> set xs)"
| "py_contains key (JStr s) = Inr (py_substring key s)"
| "py_contains key x =
     Inl (TypeError (''argument of type '' @ quoted (type_name x) @ '' is not iterable''))"

text \<open>\<^verbatim>\<open>x[key]\<close> for a string \<open>key\<close>.\<close>

fun py_getitem :: "json \<Rightarrow> string \<Rightarrow> exn + json" where
  "py_getitem (JObj kvs) key =
     (case map_of kvs key of None \<Rightarrow> Inl (KeyError key) | Some v \<Rightarrow> Inr v)"
| "py_getitem (JArr xs) key =
     Inl (TypeError ''list indices must be integers or slices, not str'')"
| "py_getitem (JStr s) key =
     Inl (TypeError (''string indices must be integers, not '' @ quoted ''str''))"
| "py_getitem x key =
     Inl (TypeError (quoted (type_name x) @ '' object is not subscriptable''))"

text \<open>\<^verbatim>\<open>x.get(key, default)\<close>: only a dictionary has the method.\<close>

fun py_get :: "json \<Rightarrow> string \<Rightarrow> json \<Rightarrow> exn + json" where
  "py_get (JObj kvs) key dflt =
     (case map_of kvs key of None \<Rightarrow> Inr dflt | Some v \<Rightarrow> Inr v)"
| "py_get x key dflt =
     Inl (AttributeError (quoted (type_name x) @ '' object has no attribute '' @ quoted ''get''))"

text \<open>
  The items a \<^verbatim>\<open>for\<close> loop or a comprehension reads from \<open>x\<close>: the elements of a list,
  the keys of a dictionary, the characters of a string.
\<close>

fun py_iter :: "json \<Rightarrow> exn + json list" where
  "py_iter (JArr xs) = Inr xs"
| "py_iter (JObj kvs) = Inr (map (\<lambda>kv. JStr (fst kv)) kvs)"
| "py_iter (JStr s) = Inr (map JStr (code_points s))"
| "py_iter x = Inl (TypeError (quoted (type_name x) @ '' object is not iterable''))"

text \<open>\<^verbatim>\<open>len(x)\<close>.\<close>

fun py_len :: "json \<Rightarrow> exn + nat" where
  "py_len (JArr xs) = Inr (length xs)"
| "py_len (JObj kvs) = Inr (length kvs)"
| "py_len (JStr s) = Inr (length (code_points s))"
| "py_len x = Inl (TypeError (''object of type '' @ quoted (type_name x) @ '' has no len()''))"

text \<open>
  Membership in a \<^verbatim>\<open>set\<close> goes by hash and equality: lists and dictionaries cannot be
  hashed, \<^verbatim>\<open>True\<close> and \<^verbatim>\<open>False\<close> are equal to 1 and 0. \<open>py_hashable\<close> gives the
  representative under which an object is stored and looked up.
\<close>

fun py_hashable :: "json \<Rightarrow> exn + json" where
  "py_hashable (JArr xs) = Inl (TypeError (''unhashable type: '' @ quoted ''list''))"
| "py_hashable (JObj kvs) = Inl (TypeError (''unhashable type: '' @ quoted ''dict''))"
| "py_hashable (JBool b) = Inr (JNum (if b then 1 else 0))"
| "py_hashable x = Inr x"

text \<open>
  \<^verbatim>\<open>str(x)\<close>, which an f-string applies to each expression. The text of a list or a
  dictionary is Python's \<^verbatim>\<open>repr\<close> of it, passed in as \<open>repr\<close>.
\<close>

fun py_str :: "(json \<Rightarrow> string) \<Rightarrow> json \<Rightarrow> string" where
  "py_str repr (JStr s) = s"
| "py_str repr JNull = ''None''"
| "py_str repr (JBool b) = (if b then ''True'' else ''False'')"
| "py_str repr (JNum n) = str_int n"
| "py_str repr x = repr x"

text \<open>A comprehension evaluates its element expression item by item; the first exception ends it.\<close>

fun map_exn :: "('a \<Rightarrow> exn + 'b) \<Rightarrow> 'a list \<Rightarrow> exn + 'b list" where
  "map_exn f [] = Inr []"
| "map_exn f (x # xs) =
     (case f x of
        Inl e \<Rightarrow> Inl e
      | Inr y \<Rightarrow> (case map_exn f xs of Inl e \<Rightarrow> Inl e | Inr ys \<Rightarrow> Inr (y # ys)))"

fun filter_exn :: "('a \<Rightarrow> exn + bool) \<Rightarrow> 'a list \<Rightarrow> exn + 'a list" where
  "filter_exn p [] = Inr []"
| "filter_exn p (x # xs) =
     (case p x of
        Inl e \<Rightarrow> Inl e
      | Inr b \<Rightarrow> (case filter_exn p xs of
                    Inl e \<Rightarrow> Inl e
                  | Inr ys \<Rightarrow> Inr (if b then x # ys else ys)))"

section \<open>The world: data files, exercise tree, remote service\<close>

text \<open>
  A data file (\<^verbatim>\<open>config.json\<close>, \<^verbatim>\<open>user_history.json\<close>, \<^verbatim>\<open>katas_index.json\<close>) either
  holds a JSON document, or text that \<^verbatim>\<open>json.loads\<close> rejects (with the decoder's
  message), or cannot be read (with the message of the \<open>OSError\<close>). A file written by
  \<^verbatim>\<open>json.dump\<close> holds the document that was dumped.
\<close>

datatype doc = Doc json | Garbled string | Unreadable string

text \<open>A path is the list of its components below the file system's root.\<close>

type_synonym path = "string list"

text \<open>What \<^verbatim>\<open>client.get(url)\<close> returns: status code, text, and what \<^verbatim>\<open>response.json()\<close>
  gives for the text (the decoded value, or the decoder's message).\<close>

record response =
  status_code :: nat
  body_text :: string
  json_body :: "string + json"

text \<open>
  \<^item> \<open>config_doc\<close>, \<open>history_doc\<close>, \<open>index_doc\<close>: the files at \<^verbatim>\<open>CONFIG_PATH\<close>,
    \<^verbatim>\<open>HISTORY_PATH\<close> and \<^verbatim>\<open>INDEX_PATH\<close>, \<open>None\<close> when the file does not exist;
  \<^item> \<open>history_write_error\<close>: the message of the \<open>OSError\<close> with which creating the data
    directory or opening the history file for writing fails, \<open>None\<close> when they succeed;
  \<^item> \<open>exercises_dir\<close>: \<^verbatim>\<open>EXERCISES_DIR\<close>;
  \<^item> \<open>dirs\<close> and \<open>files\<close>: the directories and the text files that exist;
  \<^item> \<open>denied\<close>: the paths at which creating, writing or reading fails, with the message
    of the \<open>OSError\<close>;
  \<^item> \<open>http_get\<close>: the outcome of \<^verbatim>\<open>client.get(url)\<close>, a response or an exception;
  \<^item> \<open>random_draw\<close>: the number that \<^verbatim>\<open>random.choice\<close> draws;
  \<^item> \<open>py_repr\<close>: Python's \<^verbatim>\<open>repr\<close> of a list or dictionary.
\<close>

record world =
  config_doc :: "doc option"
  history_doc :: "doc option"
  index_doc :: "doc option"
  history_write_error :: "string option"
  exercises_dir :: path
  dirs :: "path set"
  files :: "path \<rightharpoonup> string"
  denied :: "path \<rightharpoonup> string"
  http_get :: "string \<Rightarrow> exn + response"
  random_draw :: nat
  py_repr :: "json \<Rightarrow> string"

subsection \<open>File system operations\<close>

text \<open>\<^verbatim>\<open>str(path)\<close>.\<close>

definition str_path :: "path \<Rightarrow> string" where
  "str_path p = ''/'' @ py_join ''/'' p"

text \<open>
  The components of a relative or absolute path string: the pieces between slashes,
  without the empty ones and the single dots, as \<^verbatim>\<open>pathlib\<close> normalises them.
\<close>

fun split_slash :: "string \<Rightarrow> string \<Rightarrow> string list" where
  "split_slash cur [] = [cur]"
| "split_slash cur (c # cs) =
     (if c = CHR ''/'' then cur # split_slash [] cs else split_slash (cur @ [c]) cs)"

definition path_parts :: "string \<Rightarrow> string list" where
  "path_parts s = filter (\<lambda>part. part \<noteq> [] \<and> part \<noteq> ''.'') (split_slash [] s)"

text \<open>\<^verbatim>\<open>base / s\<close>: an absolute \<open>s\<close> replaces \<open>base\<close>.\<close>

definition path_div :: "path \<Rightarrow> string \<Rightarrow> path" where
  "path_div base s =
     (if s \<noteq> [] \<and> hd s = CHR ''/'' then path_parts s else base @ path_parts s)"

text \<open>\<^verbatim>\<open>path.exists()\<close>.\<close>

definition path_exists :: "world \<Rightarrow> path \<Rightarrow> bool" where
  "path_exists w p = (files w p \<noteq> None \<or> p \<in> dirs w)"

text \<open>
  \<^verbatim>\<open>path.mkdir(parents=True, exist_ok=True)\<close>: fails where the world denies it or a file
  has the name; otherwise the directory and its missing ancestors exist afterwards.
\<close>

definition ancestors :: "path \<Rightarrow> path list" where
  "ancestors p = map (\<lambda>n. take n p) [0 ..< Suc (length p)]"

definition mkdir_parents :: "world \<Rightarrow> path \<Rightarrow> exn + world" where
  "mkdir_parents w p =
     (case denied w p of
        Some m \<Rightarrow> Inl (OSError m)
      | None \<Rightarrow>
          if files w p \<noteq> None
          then Inl (OSError (''[Errno 17] File exists: '' @ quoted (str_path p)))
          else Inr (w\<lparr>dirs := dirs w \<union> set (ancestors p)\<rparr>))"

text \<open>\<^verbatim>\<open>path.write_text(content)\<close>: replaces the file's content, or creates the file.\<close>

definition write_text :: "world \<Rightarrow> path \<Rightarrow> string \<Rightarrow> exn + world" where
  "write_text w p content =
     (case denied w p of
        Some m \<Rightarrow> Inl (OSError m)
      | None \<Rightarrow>
          if p \<in> dirs w
          then Inl (OSError (''[Errno 21] Is a directory: '' @ quoted (str_path p)))
          else Inr (w\<lparr>files := (files w)(p \<mapsto> content)\<rparr>))"

text \<open>
  Lines 112 to 114 and 154 to 156 of main.py: create the data directory, open the
  history file for writing and dump the data into it. The snapshot is replaced wholesale.
\<close>

definition write_history :: "world \<Rightarrow> json \<Rightarrow> exn + world" where
  "write_history w data =
     (case history_write_error w of
        Some m \<Rightarrow> Inl (OSError m)
      | None \<Rightarrow> Inr (w\<lparr>history_doc := Some (Doc data)\<rparr>))"

text \<open>\<^verbatim>\<open>json.loads(path.read_text())\<close> on a data file that exists.\<close>

fun read_json :: "doc \<Rightarrow> exn + json" where
  "read_json (Doc v) = Inr v"
| "read_json (Garbled m) = Inl (JSONDecodeError m)"
| "read_json (Unreadable m) = Inl (OSError m)"

section \<open>Catalog client (api\_client.py)\<close>

definition BASE_URL :: string where
  "BASE_URL = ''https://www.codewars.com/api/v1''"

text \<open>An error value: a dictionary with the single key \<^verbatim>\<open>error\<close>.\<close>

definition error_dict :: "string \<Rightarrow> json" where
  "error_dict message = JObj [(''error'', JStr message)]"

text \<open>\<^verbatim>\<open>response.raise_for_status()\<close>: raises for every status outside 200 to 299.\<close>

definition raise_for_status :: "response \<Rightarrow> exn + unit" where
  "raise_for_status r =
     (if 200 \<le> status_code r \<and> status_code r < 300 then Inr ()
      else Inl (HTTPStatusError (status_code r) (body_text r)))"

definition response_json :: "response \<Rightarrow> exn + json" where
  "response_json r = (case json_body r of Inl m \<Rightarrow> Inl (JSONDecodeError m) | Inr v \<Rightarrow> Inr v)"

definition connection_error_message :: string where
  "connection_error_message =
     ''Error de conexi'' @ [CHR 0xC3, CHR 0xB3] @ ''n. Verifica tu conexi''
       @ [CHR 0xC3, CHR 0xB3] @ ''n a internet.''"

definition http_error_message :: "nat \<Rightarrow> string \<Rightarrow> string" where
  "http_error_message status body = ''Error HTTP '' @ str_nat status @ '': '' @ body"

subsection \<open>\<^verbatim>\<open>fetch_kata_details\<close>, lines 191 to 221\<close>

definition kata_not_found_message :: "string \<Rightarrow> string" where
  "kata_not_found_message kata_id_or_slug =
     ''Ejercicio '' @ [CHR 0x27] @ kata_id_or_slug @ [CHR 0x27] @ '' no encontrado.''"

definition kata_timeout_message :: "string \<Rightarrow> string" where
  "kata_timeout_message kata_id_or_slug =
     ''Timeout al obtener detalles del kata '' @ [CHR 0x27] @ kata_id_or_slug
       @ [CHR 0x27] @ ''. Intenta nuevamente.''"

definition kata_details_url :: "string \<Rightarrow> string" where
  "kata_details_url kata_id_or_slug = BASE_URL @ ''/code-challenges/'' @ kata_id_or_slug"

text \<open>The body of the \<^verbatim>\<open>try\<close> block.\<close>

definition fetch_kata_details_try :: "world \<Rightarrow> string \<Rightarrow> exn + json" where
  "fetch_kata_details_try w kata_id_or_slug =
     (case http_get w (kata_details_url kata_id_or_slug) of
        Inl e \<Rightarrow> Inl e
      | Inr response \<Rightarrow>
          if status_code response = 404
          then Inr (error_dict (kata_not_found_message kata_id_or_slug))
          else (case raise_for_status response of
                  Inl e \<Rightarrow> Inl e
                | Inr u \<Rightarrow> response_json response))"

text \<open>The \<^verbatim>\<open>except\<close> clauses, in the order of the source.\<close>

fun fetch_kata_details_except :: "string \<Rightarrow> exn \<Rightarrow> exn + json" where
  "fetch_kata_details_except kata_id_or_slug (TimeoutException m) =
     Inr (error_dict (kata_timeout_message kata_id_or_slug))"
| "fetch_kata_details_except kata_id_or_slug (ConnectError m) =
     Inr (error_dict connection_error_message)"
| "fetch_kata_details_except kata_id_or_slug (HTTPStatusError status body) =
     Inr (error_dict (http_error_message status body))"
| "fetch_kata_details_except kata_id_or_slug e =
     Inr (error_dict (''Error inesperado al obtener detalles del kata: '' @ str_exn e))"

definition fetch_kata_details :: "world \<Rightarrow> string \<Rightarrow> exn + json" where
  "fetch_kata_details w kata_id_or_slug =
     (case fetch_kata_details_try w kata_id_or_slug of
        Inl e \<Rightarrow> fetch_kata_details_except kata_id_or_slug e
      | Inr v \<Rightarrow> Inr v)"

subsection \<open>\<^verbatim>\<open>fetch_user_completed\<close>, lines 114 to 147\<close>

definition user_not_found_message :: "string \<Rightarrow> string" where
  "user_not_found_message username =
     ''Usuario '' @ [CHR 0x27] @ username @ [CHR 0x27] @ '' no encontrado.''"

definition completed_timeout_message :: "string \<Rightarrow> string" where
  "completed_timeout_message username =
     ''Timeout al obtener katas completados de '' @ [CHR 0x27] @ username
       @ [CHR 0x27] @ ''. Intenta nuevamente.''"

definition completed_url :: "string \<Rightarrow> nat \<Rightarrow> string" where
  "completed_url username page =
     BASE_URL @ ''/users/'' @ username @ ''/code-challenges/completed?page='' @ str_nat page"

definition fetch_user_completed_try :: "world \<Rightarrow> string \<Rightarrow> nat \<Rightarrow> exn + json" where
  "fetch_user_completed_try w username page =
     (case http_get w (completed_url username page) of
        Inl e \<Rightarrow> Inl e
      | Inr response \<Rightarrow>
          if status_code response = 404
          then Inr (JArr [error_dict (user_not_found_message username)])
          else (case raise_for_status response of
                  Inl e \<Rightarrow> Inl e
                | Inr u \<Rightarrow>
                    (case response_json response of
                       Inl e \<Rightarrow> Inl e
                     | Inr json_data \<Rightarrow> py_get json_data ''data'' (JArr []))))"

fun fetch_user_completed_except :: "string \<Rightarrow> exn \<Rightarrow> exn + json" where
  "fetch_user_completed_except username (TimeoutException m) =
     Inr (JArr [error_dict (completed_timeout_message username)])"
| "fetch_user_completed_except username (ConnectError m) =
     Inr (JArr [error_dict connection_error_message])"
| "fetch_user_completed_except username (HTTPStatusError status body) =
     Inr (JArr [error_dict (http_error_message status body)])"
| "fetch_user_completed_except username (KeyError k) =
     Inr (JArr [error_dict (''Error al parsear respuesta de la API: '' @ str_exn (KeyError k))])"
| "fetch_user_completed_except username (ValueError m) =
     Inr (JArr [error_dict (''Error al parsear respuesta de la API: '' @ m)])"
| "fetch_user_completed_except username (JSONDecodeError m) =
     Inr (JArr [error_dict (''Error al parsear respuesta de la API: '' @ m)])"
| "fetch_user_completed_except username e =
     Inr (JArr [error_dict (''Error inesperado al obtener katas completados: '' @ str_exn e)])"

definition fetch_user_completed :: "world \<Rightarrow> string \<Rightarrow> nat \<Rightarrow> exn + json" where
  "fetch_user_completed w username page =
     (case fetch_user_completed_try w username page of
        Inl e \<Rightarrow> fetch_user_completed_except username e
      | Inr v \<Rightarrow> Inr v)"

subsection \<open>\<^verbatim>\<open>fetch_codewars_user\<close>, lines 54 to 82\<close>







section \<open>Exercise materializer (main.py, \<^verbatim>\<open>setup_exercise_environment\<close>)\<close>

text \<open>
  The two title functions are called with \<^verbatim>\<open>kata_details['name']\<close>, whatever its type.
  \<^verbatim>\<open>sanitize_folder_name\<close> reads the items of its argument and calls \<^verbatim>\<open>isalnum\<close> on each
  one, which only a string has; \<^verbatim>\<open>re.split\<close> accepts a string only.
\<close>

definition item_text :: "json \<Rightarrow> exn + string" where
  "item_text x =
     (case x of
        JStr t \<Rightarrow> Inr t
      | _ \<Rightarrow> Inl (AttributeError
                 (quoted (type_name x) @ '' object has no attribute '' @ quoted ''isalnum'')))"

definition sanitize_folder_name_py :: "json \<Rightarrow> exn + string" where
  "sanitize_folder_name_py name =
     (case py_iter name of
        Inl e \<Rightarrow> Inl e
      | Inr items \<Rightarrow>
          (case map_exn item_text items of
             Inl e \<Rightarrow> Inl e
           | Inr texts \<Rightarrow> Inr (sanitize_items texts)))"

definition generate_function_name_py :: "json \<Rightarrow> exn + string" where
  "generate_function_name_py name =
     (case name of
        JStr s \<Rightarrow> Inr (generate_function_name s)
      | _ \<Rightarrow> Inl (TypeError
                 (''expected string or bytes-like object, got '' @ quoted (type_name name))))"

text \<open>\<^verbatim>\<open>x.replace(' ', '')\<close>: only a string has the method.\<close>

definition remove_spaces :: "json \<Rightarrow> exn + string" where
  "remove_spaces x =
     (case x of
        JStr s \<Rightarrow> Inr (filter (\<lambda>c. c \<noteq> CHR '' '') s)
      | _ \<Rightarrow> Inl (AttributeError
                 (quoted (type_name x) @ '' object has no attribute '' @ quoted ''replace'')))"

text \<open>The three texts that the materializer composes (lines 324 to 330, 336 to 360, 363 to 372).\<close>

definition readme_content :: "string \<Rightarrow> string \<Rightarrow> string \<Rightarrow> string \<Rightarrow> string" where
  "readme_content name rank_name url description =
     ''# '' @ name @ '' ['' @ rank_name @ '']'' @ [CHR 0x0A, CHR 0x0A]
       @ ''**URL:** '' @ url @ [CHR 0x0A, CHR 0x0A]
       @ ''## Descripci'' @ [CHR 0xC3, CHR 0xB3] @ ''n'' @ [CHR 0x0A]
       @ description @ [CHR 0x0A]"

definition solution_template :: "string \<Rightarrow> string \<Rightarrow> string \<Rightarrow> string \<Rightarrow> string" where
  "solution_template name rank_name url function_name =
     [CHR 0x22, CHR 0x22, CHR 0x22, CHR 0x0A] @ ''Kata: '' @ name
       @ [CHR 0x0A] @ ''Nivel: '' @ rank_name
       @ [CHR 0x0A] @ ''URL: '' @ url
       @ [CHR 0x0A, CHR 0x22, CHR 0x22, CHR 0x22, CHR 0x0A, CHR 0x0A] @ ''def '' @ function_name
       @ ''(args):'' @ [CHR 0x0A]
       @ ''    '' @ [CHR 0x22, CHR 0x22, CHR 0x22] @ ''Implement kata solution here.'' @ [CHR 0x0A]
       @ ''    '' @ [CHR 0x0A]
       @ ''    Note: Verify on CodeWars if the function name '' @ [CHR 0x27] @ function_name
       @ [CHR 0x27] @ '' is correct'' @ [CHR 0x0A]
       @ ''    (sometimes they use camelCase instead of snake_case).'' @ [CHR 0x0A]
       @ ''    '' @ [CHR 0x0A]
       @ ''    Args:'' @ [CHR 0x0A]
       @ ''        args: Replace with actual parameter names and types.'' @ [CHR 0x0A]
       @ ''        '' @ [CHR 0x0A]
       @ ''    Returns:'' @ [CHR 0x0A]
       @ ''        Replace with actual return type.'' @ [CHR 0x0A]
       @ ''    '' @ [CHR 0x22, CHR 0x22, CHR 0x22, CHR 0x0A]
       @ ''    pass'' @ [CHR 0x0A, CHR 0x0A, CHR 0x0A]
       @ ''if __name__ == '' @ [CHR 0x22] @ ''__main__'' @ [CHR 0x22] @ '':'' @ [CHR 0x0A]
       @ ''    print(f'' @ [CHR 0x22] @ ''Testing {__name__.split('' @ [CHR 0x27] @ ''.''
       @ [CHR 0x27] @ '')[0]}...'' @ [CHR 0x22] @ '')'' @ [CHR 0x0A]
       @ ''    # Add test cases here'' @ [CHR 0x0A]"

definition ready_message :: "string \<Rightarrow> string \<Rightarrow> string \<Rightarrow> string \<Rightarrow> string" where
  "ready_message origin name folder function_name =
     [CHR 0x0A, CHR 0xF0, CHR 0x9F, CHR 0x9A, CHR 0x80] @ '' EJERCICIO LISTO ('' @ origin
       @ '')'' @ [CHR 0x0A, CHR 0x0A] @ ''He preparado: **'' @ name
       @ ''**'' @ [CHR 0x0A, CHR 0x0A, CHR 0xF0, CHR 0x9F, CHR 0x93, CHR 0x82]
       @ '' Carpeta: '' @ [CHR 0x60] @ folder
       @ [CHR 0x60, CHR 0x0A, CHR 0xF0, CHR 0x9F, CHR 0x93, CHR 0x84] @ '' Archivo: ''
       @ [CHR 0x60] @ ''solution.py'' @ [CHR 0x60] @ '' con la funci'' @ [CHR 0xC3, CHR 0xB3]
       @ ''n '' @ [CHR 0x60] @ ''def '' @ function_name
       @ ''(...):'' @ [CHR 0x60, CHR 0x0A, CHR 0x0A]
       @ ''Dile al usuario que abra esa carpeta y comience a leer el README.'' @ [CHR 0x0A]"

definition error_mark :: string where
  "error_mark = [CHR 0xE2, CHR 0x9D, CHR 0x8C]"

definition missing_field_message :: "string \<Rightarrow> string" where
  "missing_field_message key =
     error_mark @ '' Error: Falta campo requerido en kata_details: '' @ str_exn (KeyError key)"

text \<open>
  Lines 316 to 319: the folder of an exercise, from the rank name without its spaces
  and the slug of the title.
\<close>

definition exercise_folder :: "world \<Rightarrow> string \<Rightarrow> string \<Rightarrow> path" where
  "exercise_folder w rank_name folder_slug =
     path_div (exercises_dir w) (rank_name @ ''_python_'' @ folder_slug)"

text \<open>
  The body of the \<^verbatim>\<open>try\<close> block, lines 314 to 372, in three steps: the rank name,
  the title and the folder path (lines 314 to 319); the creation of the folder (line
  320); the function name, the two files and the message (lines 322 to 372).
\<close>

definition setup_names :: "world \<Rightarrow> json \<Rightarrow> exn + (string \<times> json \<times> path)" where
  "setup_names w kata_details =
     (case py_get kata_details ''rank'' (JObj []) of
        Inl e \<Rightarrow> Inl e
      | Inr rank_info \<Rightarrow>
     (case py_get rank_info ''name'' (JStr ''N/A'') of
        Inl e \<Rightarrow> Inl e
      | Inr rank_value \<Rightarrow>
     (case remove_spaces rank_value of
        Inl e \<Rightarrow> Inl e
      | Inr rank_name \<Rightarrow>
     (case py_getitem kata_details ''name'' of
        Inl e \<Rightarrow> Inl e
      | Inr name \<Rightarrow>
     (case sanitize_folder_name_py name of
        Inl e \<Rightarrow> Inl e
      | Inr folder_slug \<Rightarrow> Inr (rank_name, name, exercise_folder w rank_name folder_slug))))))"

definition write_solution ::
    "world \<Rightarrow> path \<Rightarrow> string \<Rightarrow> string \<Rightarrow> string \<Rightarrow> string \<Rightarrow> exn + world" where
  "write_solution w solution_file_path name_text rank_name url_text function_name =
     (if \<not> path_exists w solution_file_path
      then write_text w solution_file_path
             (solution_template name_text rank_name url_text function_name)
      else Inr w)"

definition setup_files ::
    "world \<Rightarrow> json \<Rightarrow> string \<Rightarrow> string \<Rightarrow> json \<Rightarrow> path \<Rightarrow> (exn + string) \<times> world" where
  "setup_files w kata_details origin rank_name name exercise_folder_path =
     (case generate_function_name_py name of
        Inl e \<Rightarrow> (Inl e, w)
      | Inr function_name \<Rightarrow>
     (case py_getitem kata_details ''url'' of
        Inl e \<Rightarrow> (Inl e, w)
      | Inr url \<Rightarrow>
     (case py_getitem kata_details ''description'' of
        Inl e \<Rightarrow> (Inl e, w)
      | Inr description \<Rightarrow>
     (case write_text w (exercise_folder_path @ [''README.md''])
             (readme_content (py_str (py_repr w) name) rank_name (py_str (py_repr w) url)
                (py_str (py_repr w) description)) of
        Inl e \<Rightarrow> (Inl e, w)
      | Inr w2 \<Rightarrow>
     (case write_solution w2 (exercise_folder_path @ [''solution.py''])
             (py_str (py_repr w) name) rank_name (py_str (py_repr w) url) function_name of
        Inl e \<Rightarrow> (Inl e, w2)
      | Inr w3 \<Rightarrow>
          (Inr (ready_message origin (py_str (py_repr w) name)
                  (str_path exercise_folder_path) function_name), w3))))))"

definition setup_exercise_environment_try ::
    "world \<Rightarrow> json \<Rightarrow> string \<Rightarrow> (exn + string) \<times> world" where
  "setup_exercise_environment_try w kata_details origin =
     (case setup_names w kata_details of
        Inl e \<Rightarrow> (Inl e, w)
      | Inr (rank_name, name, exercise_folder_path) \<Rightarrow>
     (case mkdir_parents w exercise_folder_path of
        Inl e \<Rightarrow> (Inl e, w)
      | Inr w1 \<Rightarrow> setup_files w1 kata_details origin rank_name name exercise_folder_path))"

text \<open>The \<^verbatim>\<open>except\<close> clauses, lines 374 to 379.\<close>

fun setup_exercise_environment_except :: "exn \<Rightarrow> string" where
  "setup_exercise_environment_except (KeyError k) = missing_field_message k"
| "setup_exercise_environment_except (OSError m) =
     error_mark @ '' Error al crear archivos del ejercicio: '' @ m"
| "setup_exercise_environment_except e =
     error_mark @ '' Error inesperado al configurar ejercicio: '' @ str_exn e"

definition setup_exercise_environment ::
    "world \<Rightarrow> json \<Rightarrow> string \<Rightarrow> (exn + string) \<times> world" where
  "setup_exercise_environment w kata_details origin =
     (case setup_exercise_environment_try w kata_details origin of
        (Inl e, w') \<Rightarrow> (Inr (setup_exercise_environment_except e), w')
      | (Inr message, w') \<Rightarrow> (Inr message, w'))"

section \<open>Tools (main.py)\<close>

subsection \<open>\<^verbatim>\<open>load_config\<close>, lines 86 to 91\<close>

text \<open>\<^verbatim>\<open>None\<close> when the file does not exist; a \<open>ValueError\<close> when its text is not JSON.\<close>

definition load_config :: "world \<Rightarrow> exn + json" where
  "load_config w =
     (case config_doc w of
        None \<Rightarrow> Inr JNull
      | Some d \<Rightarrow>
          (case read_json d of
             Inl (JSONDecodeError m) \<Rightarrow> Inl (ValueError (''Invalid JSON in config file: '' @ m))
           | Inl e \<Rightarrow> Inl e
           | Inr v \<Rightarrow> Inr v))"

subsection \<open>\<^verbatim>\<open>sync_history_internal\<close>, lines 106 to 119\<close>

text \<open>\<^verbatim>\<open>[kata["id"] for kata in data]\<close>.\<close>

definition kata_ids :: "json \<Rightarrow> exn + json list" where
  "kata_ids data =
     (case py_iter data of
        Inl e \<Rightarrow> Inl e
      | Inr katas \<Rightarrow> map_exn (\<lambda>kata. py_getitem kata ''id'') katas)"

definition sync_history_internal_try :: "world \<Rightarrow> json \<Rightarrow> (exn + json list) \<times> world" where
  "sync_history_internal_try w username =
     (case fetch_user_completed w (py_str (py_repr w) username) 0 of
        Inl e \<Rightarrow> (Inl e, w)
      | Inr completed_katas_data \<Rightarrow>
     (case py_contains ''error'' completed_katas_data of
        Inl e \<Rightarrow> (Inl e, w)
      | Inr has_error \<Rightarrow>
          if has_error then (Inr [], w)
          else
     (case write_history w completed_katas_data of
        Inl e \<Rightarrow> (Inl e, w)
      | Inr w' \<Rightarrow>
     (case kata_ids completed_katas_data of
        Inl e \<Rightarrow> (Inl e, w')
      | Inr ids \<Rightarrow> (Inr ids, w')))))"

text \<open>\<^verbatim>\<open>except (IOError, KeyError, TypeError)\<close>: the three classes give the empty list,
  any other exception propagates.\<close>

fun sync_history_internal_except :: "exn \<Rightarrow> exn + json list" where
  "sync_history_internal_except (OSError m) = Inr []"
| "sync_history_internal_except (KeyError k) = Inr []"
| "sync_history_internal_except (TypeError m) = Inr []"
| "sync_history_internal_except e = Inl e"

definition sync_history_internal :: "world \<Rightarrow> json \<Rightarrow> (exn + json list) \<times> world" where
  "sync_history_internal w username =
     (case sync_history_internal_try w username of
        (Inl e, w') \<Rightarrow> (sync_history_internal_except e, w')
      | (Inr ids, w') \<Rightarrow> (Inr ids, w'))"

subsection \<open>\<^verbatim>\<open>update_progress\<close>, lines 136 to 167\<close>

definition no_user_message :: string where
  "no_user_message =
     error_mark @ '' Error: No se encontr'' @ [CHR 0xC3, CHR 0xB3] @ '' configuraci''
       @ [CHR 0xC3, CHR 0xB3] @ ''n de usuario. Por favor ejecuta '' @ [CHR 0x27] @ ''setup.py''
       @ [CHR 0x27] @ '' primero.''"

definition connect_failed_message :: "string \<Rightarrow> string" where
  "connect_failed_message err = error_mark @ '' Error conectando con CodeWars: '' @ err"

definition sync_ok_message :: "nat \<Rightarrow> string" where
  "sync_ok_message kata_count =
     [CHR 0xE2, CHR 0x9C, CHR 0x85] @ '' Sincronizaci'' @ [CHR 0xC3, CHR 0xB3]
       @ ''n exitosa. Historial local actualizado con '' @ str_nat kata_count
       @ '' ejercicios recientes.''"

text \<open>
  Line 138, \<^verbatim>\<open>username or (config.get("codewars_username") if config else None)\<close>: the
  argument when it is a non-empty string, else the configured value.
\<close>

definition configured_username :: "json \<Rightarrow> exn + json" where
  "configured_username config =
     (if py_truthy config then py_get config ''codewars_username'' JNull else Inr JNull)"

definition active_username :: "string option \<Rightarrow> json \<Rightarrow> exn + json" where
  "active_username username config =
     (case username of
        None \<Rightarrow> configured_username config
      | Some u \<Rightarrow> if u \<noteq> [] then Inr (JStr u) else configured_username config)"

definition update_progress_try :: "world \<Rightarrow> string option \<Rightarrow> (exn + string) \<times> world" where
  "update_progress_try w username =
     (case load_config w of
        Inl e \<Rightarrow> (Inl e, w)
      | Inr config \<Rightarrow>
     (case active_username username config of
        Inl e \<Rightarrow> (Inl e, w)
      | Inr active \<Rightarrow>
          if \<not> py_truthy active then (Inr no_user_message, w)
          else
     (case fetch_user_completed w (py_str (py_repr w) active) 0 of
        Inl e \<Rightarrow> (Inl e, w)
      | Inr completed_katas_data \<Rightarrow>
     (case py_contains ''error'' completed_katas_data of
        Inl e \<Rightarrow> (Inl e, w)
      | Inr has_error \<Rightarrow>
          if has_error
          then (case py_getitem completed_katas_data ''error'' of
                  Inl e \<Rightarrow> (Inl e, w)
                | Inr err \<Rightarrow> (Inr (connect_failed_message (py_str (py_repr w) err)), w))
          else
     (case write_history w completed_katas_data of
        Inl e \<Rightarrow> (Inl e, w)
      | Inr w' \<Rightarrow>
     (case py_len completed_katas_data of
        Inl e \<Rightarrow> (Inl e, w')
      | Inr kata_count \<Rightarrow> (Inr (sync_ok_message kata_count), w')))))))"

fun update_progress_except :: "exn \<Rightarrow> string" where
  "update_progress_except (OSError m) =
     error_mark @ '' Error de archivo al guardar historial: '' @ m"
| "update_progress_except e =
     error_mark @ '' Error cr'' @ [CHR 0xC3, CHR 0xAD] @ ''tico al actualizar: '' @ str_exn e"

definition update_progress :: "world \<Rightarrow> string option \<Rightarrow> (exn + string) \<times> world" where
  "update_progress w username =
     (case update_progress_try w username of
        (Inl e, w') \<Rightarrow> (Inr (update_progress_except e), w')
      | (Inr message, w') \<Rightarrow> (Inr message, w'))"

subsection \<open>\<^verbatim>\<open>import_kata\<close>, lines 187 to 208\<close>

text \<open>
  Line 188 searches the input for \<^verbatim>\<open>kata/([a-f0-9]+)|([a-f0-9]{24})\<close>. A search tries
  the positions of the string from left to right and, at each position, the first
  alternative before the second; the first success is the match. The first
  alternative takes the longest run of hexadecimal characters after \<^verbatim>\<open>kata/\<close>.
\<close>

definition is_hex :: "char \<Rightarrow> bool" where
  "is_hex c = (c \<in> set ''abcdef0123456789'')"

datatype kata_match = Group1 string | Group2 string

definition match_kata_path :: "string \<Rightarrow> string option" where
  "match_kata_path s =
     (if take 5 s = ''kata/'' \<and> takeWhile is_hex (drop 5 s) \<noteq> []
      then Some (takeWhile is_hex (drop 5 s)) else None)"

definition match_hex24 :: "string \<Rightarrow> string option" where
  "match_hex24 s =
     (if 24 \<le> length s \<and> list_all is_hex (take 24 s) then Some (take 24 s) else None)"

definition match_here :: "string \<Rightarrow> kata_match option" where
  "match_here s =
     (case match_kata_path s of
        Some g \<Rightarrow> Some (Group1 g)
      | None \<Rightarrow> (case match_hex24 s of Some g \<Rightarrow> Some (Group2 g) | None \<Rightarrow> None))"

fun re_search_kata_id :: "string \<Rightarrow> kata_match option" where
  "re_search_kata_id [] = match_here []"
| "re_search_kata_id (c # cs) =
     (case match_here (c # cs) of Some m \<Rightarrow> Some m | None \<Rightarrow> re_search_kata_id cs)"

text \<open>
  Lines 189 to 193, \<^verbatim>\<open>group(1) or group(2)\<close> of the match, else the stripped input.
  The first group is never empty when it took part in the match.
\<close>

definition extract_kata_id :: "string \<Rightarrow> string" where
  "extract_kata_id url_or_id =
     (case re_search_kata_id url_or_id of
        Some (Group1 g) \<Rightarrow> g
      | Some (Group2 g) \<Rightarrow> g
      | None \<Rightarrow> py_strip url_or_id)"






subsection \<open>\<^verbatim>\<open>practice_python\<close>, lines 226 to 292\<close>

definition no_config_message :: string where
  "no_config_message =
     error_mark @ '' Error: No se encontr'' @ [CHR 0xC3, CHR 0xB3] @ '' configuraci''
       @ [CHR 0xC3, CHR 0xB3] @ ''n. Por favor ejecuta setup.py primero.''"

definition no_username_message :: string where
  "no_username_message =
     error_mark @ '' Error: No se encontr'' @ [CHR 0xC3, CHR 0xB3]
       @ '' username en la configuraci'' @ [CHR 0xC3, CHR 0xB3]
       @ ''n. Por favor ejecuta setup.py primero.''"

definition cache_error_message :: "string \<Rightarrow> string" where
  "cache_error_message err = error_mark @ '' Error al leer historial cacheado: '' @ err"

definition no_index_message :: string where
  "no_index_message =
     [CHR 0xE2, CHR 0x9A, CHR 0xA0, CHR 0xEF, CHR 0xB8, CHR 0x8F] @ '' Error: No encuentro ''
       @ [CHR 0x27] @ ''data/katas_index.json'' @ [CHR 0x27] @ ''. Por favor ejecuta ''
       @ [CHR 0x27] @ ''python src/indexer.py'' @ [CHR 0x27]
       @ '' para generar la base de datos de ejercicios.''"

definition index_error_message :: "string \<Rightarrow> string" where
  "index_error_message err =
     error_mark @ '' Error al leer '' @ [CHR 0xC3, CHR 0xAD] @ ''ndice de katas: '' @ err"

definition all_done_message :: string where
  "all_done_message =
     [CHR 0xF0, CHR 0x9F, CHR 0x8E, CHR 0x89] @ '' '' @ [CHR 0xC2, CHR 0xA1] @ ''Incre''
       @ [CHR 0xC3, CHR 0xAD]
       @ ''ble! Has completado todos los ejercicios indexados. Intenta ejecutar ''
       @ [CHR 0x27] @ ''src/indexer.py'' @ [CHR 0x27] @ '' de nuevo para buscar m''
       @ [CHR 0xC3, CHR 0xA1] @ ''s, o usa '' @ [CHR 0x27] @ ''import_kata'' @ [CHR 0x27]
       @ '' con una URL espec'' @ [CHR 0xC3, CHR 0xAD] @ ''fica.''"

definition download_error_message :: "string \<Rightarrow> string \<Rightarrow> string" where
  "download_error_message name err =
     error_mark @ '' Hubo un error descargando el contenido del ejercicio '' @ [CHR 0x27]
       @ name @ [CHR 0x27] @ '': '' @ err"

definition origin_automatic :: string where
  "origin_automatic =
     ''Recomendaci'' @ [CHR 0xC3, CHR 0xB3] @ ''n Autom'' @ [CHR 0xC3, CHR 0xA1] @ ''tica''"

text \<open>
  A \<^verbatim>\<open>set\<close> of identifiers is the list of their hashable representatives;
  \<^verbatim>\<open>set(ids)\<close> hashes every element.
\<close>

definition py_set :: "json list \<Rightarrow> exn + json list" where
  "py_set xs = map_exn py_hashable xs"

text \<open>Line 246, \<^verbatim>\<open>{kata["id"] for kata in cached_history}\<close>.\<close>

definition kata_id_set :: "json \<Rightarrow> exn + json list" where
  "kata_id_set cached_history =
     (case py_iter cached_history of
        Inl e \<Rightarrow> Inl e
      | Inr katas \<Rightarrow>
          map_exn (\<lambda>kata. case py_getitem kata ''id'' of
                             Inl e \<Rightarrow> Inl e
                           | Inr kata_id \<Rightarrow> py_hashable kata_id) katas)"

text \<open>
  Lines 243 to 248. The result is an exception that leaves the inner handler, or the
  message of an early \<^verbatim>\<open>return\<close>, or the set of completed identifiers.
\<close>

definition cached_ids :: "doc \<Rightarrow> exn + (string + json list)" where
  "cached_ids d =
     (case read_json d of
        Inl (JSONDecodeError m) \<Rightarrow> Inr (Inl (cache_error_message m))
      | Inl e \<Rightarrow> Inl e
      | Inr cached_history \<Rightarrow>
          (case kata_id_set cached_history of
             Inl (KeyError k) \<Rightarrow> Inr (Inl (cache_error_message (str_exn (KeyError k))))
           | Inl e \<Rightarrow> Inl e
           | Inr ids \<Rightarrow> Inr (Inr ids)))"

definition completed_or_cached :: "world \<Rightarrow> json list \<Rightarrow> exn + (string + json list)" where
  "completed_or_cached w completed_kata_ids =
     (if completed_kata_ids = []
      then (case history_doc w of
              None \<Rightarrow> Inr (Inr completed_kata_ids)
            | Some d \<Rightarrow> cached_ids d)
      else Inr (Inr completed_kata_ids))"

text \<open>Lines 262 to 265: the katas of the index whose identifier is not completed.\<close>

definition not_completed :: "json list \<Rightarrow> json \<Rightarrow> exn + bool" where
  "not_completed completed_kata_ids kata =
     (case py_getitem kata ''id'' of
        Inl e \<Rightarrow> Inl e
      | Inr kata_id \<Rightarrow>
          (case py_hashable kata_id of
             Inl e \<Rightarrow> Inl e
           | Inr key \<Rightarrow> Inr (key \<notin> set completed_kata_ids)))"

definition available_katas :: "json \<Rightarrow> json list \<Rightarrow> exn + json list" where
  "available_katas full_kata_index completed_kata_ids =
     (case py_iter full_kata_index of
        Inl e \<Rightarrow> Inl e
      | Inr katas \<Rightarrow> filter_exn (not_completed completed_kata_ids) katas)"

text \<open>\<^verbatim>\<open>random.choice(seq)\<close> on a non-empty sequence, for the number drawn.\<close>

definition random_choice :: "nat \<Rightarrow> 'a list \<Rightarrow> 'a" where
  "random_choice draw seq = seq ! (draw mod length seq)"

text \<open>Lines 276 to 287: fetch the details of the selected kata and materialize it.\<close>

definition practice_fetch :: "world \<Rightarrow> json \<Rightarrow> (exn + string) \<times> world" where
  "practice_fetch w selected_kata_index =
     (case py_getitem selected_kata_index ''id'' of
        Inl e \<Rightarrow> (Inl e, w)
      | Inr kata_id \<Rightarrow>
     (case fetch_kata_details w (py_str (py_repr w) kata_id) of
        Inl e \<Rightarrow> (Inl e, w)
      | Inr kata_details \<Rightarrow>
     (case py_contains ''error'' kata_details of
        Inl e \<Rightarrow> (Inl e, w)
      | Inr has_error \<Rightarrow>
          if has_error
          then (case py_getitem selected_kata_index ''name'' of
                  Inl e \<Rightarrow> (Inl e, w)
                | Inr name \<Rightarrow>
                    (case py_getitem kata_details ''error'' of
                       Inl e \<Rightarrow> (Inl e, w)
                     | Inr err \<Rightarrow>
                         (Inr (download_error_message (py_str (py_repr w) name)
                                 (py_str (py_repr w) err)), w)))
          else setup_exercise_environment w kata_details origin_automatic)))"

text \<open>Lines 250 to 274: read the index, filter it, report exhaustion or select.\<close>

definition practice_select :: "world \<Rightarrow> json list \<Rightarrow> (exn + string) \<times> world" where
  "practice_select w completed_kata_ids =
     (case index_doc w of
        None \<Rightarrow> (Inr no_index_message, w)
      | Some d \<Rightarrow>
     (case read_json d of
        Inl (JSONDecodeError m) \<Rightarrow> (Inr (index_error_message m), w)
      | Inl e \<Rightarrow> (Inl e, w)
      | Inr full_kata_index \<Rightarrow>
     (case available_katas full_kata_index completed_kata_ids of
        Inl e \<Rightarrow> (Inl e, w)
      | Inr available \<Rightarrow>
          if available = [] then (Inr all_done_message, w)
          else practice_fetch w (random_choice (random_draw w) available))))"

definition practice_python_try :: "world \<Rightarrow> (exn + string) \<times> world" where
  "practice_python_try w =
     (case load_config w of
        Inl e \<Rightarrow> (Inl e, w)
      | Inr config \<Rightarrow>
          if \<not> py_truthy config then (Inr no_config_message, w)
          else
     (case py_get config ''codewars_username'' JNull of
        Inl e \<Rightarrow> (Inl e, w)
      | Inr username \<Rightarrow>
          if \<not> py_truthy username then (Inr no_username_message, w)
          else
     (case sync_history_internal w username of
        (Inl e, w1) \<Rightarrow> (Inl e, w1)
      | (Inr ids, w1) \<Rightarrow>
     (case py_set ids of
        Inl e \<Rightarrow> (Inl e, w1)
      | Inr synced \<Rightarrow>
     (case completed_or_cached w1 synced of
        Inl e \<Rightarrow> (Inl e, w1)
      | Inr (Inl message) \<Rightarrow> (Inr message, w1)
      | Inr (Inr completed_kata_ids) \<Rightarrow> practice_select w1 completed_kata_ids)))))"

fun practice_python_except :: "exn \<Rightarrow> string" where
  "practice_python_except (KeyError k) =
     error_mark @ '' Error: Falta campo requerido en los datos: '' @ str_exn (KeyError k)"
| "practice_python_except e =
     error_mark @ '' Error inesperado en practice_python: '' @ str_exn e"

definition practice_python :: "world \<Rightarrow> (exn + string) \<times> world" where
  "practice_python w =
     (case practice_python_try w of
        (Inl e, w') \<Rightarrow> (Inr (practice_python_except e), w')
      | (Inr message, w') \<Rightarrow> (Inr message, w'))"

section \<open>The specification's words for the identifier of \<^verbatim>\<open>import_kata\<close>\<close>

text \<open>
  A text starts with a kata path segment when it starts with \<^verbatim>\<open>kata/\<close> followed by a
  hexadecimal character, and with a bare identifier when its first 24 characters are
  hexadecimal. Hexadecimal means a digit or a letter from \<^verbatim>\<open>a\<close> to \<^verbatim>\<open>f\<close>.
\<close>

definition starts_kata_segment :: "string \<Rightarrow> bool" where
  "starts_kata_segment t = (take 5 t = ''kata/'' \<and> 5 < length t \<and> is_hex (t ! 5))"

definition starts_hex24 :: "string \<Rightarrow> bool" where
  "starts_hex24 t = (24 \<le> length t \<and> list_all is_hex (take 24 t))"

text \<open>No match of either kind starts at one of the first \<open>n\<close> positions of \<open>s\<close>.\<close>

definition no_match_before :: "nat \<Rightarrow> string \<Rightarrow> bool" where
  "no_match_before n s =
     list_all (\<lambda>j. \<not> starts_kata_segment (drop j s) \<and> \<not> starts_hex24 (drop j s)) [0 ..< n]"

section \<open>Example worlds\<close>

text \<open>
  A world with no data files and an empty exercise tree under \<^verbatim>\<open>/srv/exercises\<close>, whose
  remote service cannot be reached. The examples below change single fields of it.
\<close>

definition offline_world :: world where
  "offline_world =
     \<lparr>config_doc = None, history_doc = None, index_doc = None,
      history_write_error = None,
      exercises_dir = [''srv'', ''exercises''],
      dirs = {}, files = Map.empty, denied = Map.empty,
      http_get = (\<lambda>url. Inl (ConnectError ''All connection attempts failed'')),
      random_draw = 0,
      py_repr = (\<lambda>v. ''<repr>'')\<rparr>"

definition reply :: "nat \<Rightarrow> string \<Rightarrow> string + json \<Rightarrow> exn + response" where
  "reply status body decoded = Inr \<lparr>status_code = status, body_text = body, json_body = decoded\<rparr>"


text \<open>
  A service that answers for the user \<^verbatim>\<open>u\<close>, who has completed the kata \<^verbatim>\<open>a1\<close>, and for
  the katas \<^verbatim>\<open>b2\<close> and \<^verbatim>\<open>c3\<close>; the details of \<^verbatim>\<open>c3\<close> lack the address and the
  description. The text of a successful response is not read by the client, only the
  document decoded from it.
\<close>

definition json_reply :: "json \<Rightarrow> exn + response" where
  "json_reply v = reply 200 ''(the text of the document)'' (Inr v)"

definition two_sum_details :: json where
  "two_sum_details =
     JObj [(''id'', JStr ''b2''), (''name'', JStr ''Two Sum''),
           (''rank'', JObj [(''id'', JNum (- 6)), (''name'', JStr ''6 kyu'')]),
           (''url'', JStr ''https://www.codewars.com/kata/b2''),
           (''description'', JStr ''Find two numbers that add up to the target.'')]"


definition partial_details :: json where
  "partial_details = JObj [(''id'', JStr ''c3''), (''name'', JStr ''Stray Number'')]"

definition sample_completed :: json where
  "sample_completed = JArr [JObj [(''id'', JStr ''a1''), (''name'', JStr ''Valid Braces'')]]"

definition sample_index :: json where
  "sample_index =
     JArr [JObj [(''id'', JStr ''a1''), (''name'', JStr ''Valid Braces'')],
           JObj [(''id'', JStr ''b2''), (''name'', JStr ''Two Sum'')]]"

definition catalog_service :: "string \<Rightarrow> exn + response" where
  "catalog_service url =
     (if url = completed_url ''u'' 0 then json_reply (JObj [(''data'', sample_completed)])
      else if url = kata_details_url ''b2'' then json_reply two_sum_details
      else if url = kata_details_url ''c3'' then json_reply partial_details
      else reply 404 ''{}'' (Inr (JObj [])))"

text \<open>
  The configured user is \<^verbatim>\<open>u\<close>, the index lists \<^verbatim>\<open>a1\<close> and \<^verbatim>\<open>b2\<close>, and no history
  has been saved yet.
\<close>

definition sample_world :: world where
  "sample_world =
     offline_world
       \<lparr>config_doc := Some (Doc (JObj [(''codewars_username'', JStr ''u'')])),
        index_doc := Some (Doc sample_index),
        http_get := catalog_service\<rparr>"

text \<open>The same, with a saved history and a service that answers no request in time.\<close>

definition stalled_world :: world where
  "stalled_world =
     sample_world
       \<lparr>history_doc := Some (Doc sample_completed),
        http_get := (\<lambda>url. Inl (TimeoutException ''timed out''))\<rparr>"









text \<open>The entry of the kata \<^verbatim>\<open>Two Sum\<close> in the sample index.\<close>

definition two_sum_entry :: json where
  "two_sum_entry = JObj [(''id'', JStr ''b2''), (''name'', JStr ''Two Sum'')]"

section \<open>Properties of the title functions\<close>

declare re_split_nonalnum.simps [simp del]
declare strip_front.simps [simp del]
declare str_nat.simps [simp del]
declare code_points.simps [simp del]

lemma alnum_runs_takeWhile:
  "alnum_runs cur s =
     (if dropWhile re_alnum s = [] then (if cur @ s = [] then [] else [cur @ s])
      else (if cur @ takeWhile re_alnum s = [] then [] else [cur @ takeWhile re_alnum s])
             @ alnum_runs [] (dropWhile re_alnum s))"
proof (induction s arbitrary: cur)
  case Nil
  show ?case by simp
next
  case (Cons a s)
  show ?case
  proof (cases "re_alnum a")
    case True
    with Cons [of "cur @ [a]"] show ?thesis by simp
  next
    case False
    then show ?thesis by simp
  qed
qed

lemma alnum_runs_skip: "alnum_runs [] (dropWhile (\<lambda>c. \<not> re_alnum c) r) = alnum_runs [] r"
  by (induction r) auto

lemma re_split_runs: "filter (\<lambda>word. word \<noteq> []) (re_split_nonalnum s) = alnum_runs [] s"
proof (induction s rule: re_split_nonalnum.induct)
  case (1 s)
  show ?case
  proof (cases "dropWhile re_alnum s = []")
    case True
    then have tw: "takeWhile re_alnum s = s" by (metis takeWhile_dropWhile_id append_Nil2)
    have l: "re_split_nonalnum s = [s]"
      by (subst re_split_nonalnum.simps) (simp only: Let_def True tw, simp)
    have r: "alnum_runs [] s = (if s = [] then [] else [s])"
      by (subst alnum_runs_takeWhile) (simp only: True, simp)
    show ?thesis by (simp add: l r)
  next
    case False
    from 1 [OF refl refl False]
    have ih: "filter (\<lambda>word. word \<noteq> []) (re_split_nonalnum (dropWhile (\<lambda>c. \<not> re_alnum c) (dropWhile re_alnum s)))
        = alnum_runs [] (dropWhile re_alnum s)" by (simp add: alnum_runs_skip)
    have l: "re_split_nonalnum s = takeWhile re_alnum s
        # re_split_nonalnum (dropWhile (\<lambda>c. \<not> re_alnum c) (dropWhile re_alnum s))"
      by (subst re_split_nonalnum.simps) (simp only: Let_def False if_False)
    have r: "alnum_runs [] s = (if takeWhile re_alnum s = [] then [] else [takeWhile re_alnum s])
        @ alnum_runs [] (dropWhile re_alnum s)"
      by (subst alnum_runs_takeWhile) (simp only: False if_False append_Nil)
    show ?thesis by (simp only: l r filter.simps ih) simp
  qed
qed

lemma alnum_runs_tokens:
  "list_all re_alnum cur \<Longrightarrow> w \<in> set (alnum_runs cur s) \<Longrightarrow> w \<noteq> [] \<and> list_all re_alnum w"
proof (induction s arbitrary: cur)
  case Nil
  then show ?case by (auto split: if_splits)
next
  case (Cons a s)
  show ?case
  proof (cases "re_alnum a")
    case True
    with Cons.prems have "list_all re_alnum (cur @ [a])" and "w \<in> set (alnum_runs (cur @ [a]) s)"
      by simp_all
    then show ?thesis by (rule Cons.IH)
  next
    case False
    with Cons.prems have "(cur \<noteq> [] \<and> w = cur) \<or> w \<in> set (alnum_runs [] s)"
      by (auto split: if_splits)
    then show ?thesis
    proof
      assume "cur \<noteq> [] \<and> w = cur"
      with Cons.prems show ?thesis by simp
    next
      assume "w \<in> set (alnum_runs [] s)"
      with Cons.IH [of "[]"] show ?thesis by simp
    qed
  qed
qed

lemma alnum_runs_concat: "concat (alnum_runs cur s) = cur @ filter re_alnum s"
  by (induction s arbitrary: cur) auto

lemma py_lower_char_table:
  "\<forall>c \<in> set (ascii_digits @ ascii_uppercase @ ascii_lowercase).
     py_lower_char c \<in> set ascii_lowercase \<union> set ascii_digits"
  by code_simp

lemma py_lower_char_range:
  "py_isalnum c \<Longrightarrow> py_lower_char c \<in> set ascii_lowercase \<union> set ascii_digits"
  using py_lower_char_table unfolding py_isalnum_def by auto

lemma strip_front_suffix: "\<exists>n. strip_front tbl s = drop n s"
proof (induction tbl s rule: strip_front.induct)
  case (1 tbl s)
  show ?case
  proof (cases "find (\<lambda>w. take (length w) s = w) tbl")
    case None
    then have "strip_front tbl s = drop 0 s" by (subst strip_front.simps) simp
    then show ?thesis by blast
  next
    case (Some w)
    show ?thesis
    proof (cases "w = []")
      case True
      with Some have "strip_front tbl s = drop 0 s" by (subst strip_front.simps) simp
      then show ?thesis by blast
    next
      case False
      from 1 [OF Some False] obtain n where "strip_front tbl (drop (length w) s) = drop n (drop (length w) s)"
        by blast
      with Some False have "strip_front tbl s = drop (n + length w) s"
        by (subst strip_front.simps) (simp add: add.commute)
      then show ?thesis by blast
    qed
  qed
qed

lemma strip_front_no_prefix:
  "[] \<notin> set tbl \<Longrightarrow> w \<in> set tbl \<Longrightarrow> take (length w) (strip_front tbl s) \<noteq> w"
proof (induction tbl s rule: strip_front.induct)
  case (1 tbl s)
  show ?case
  proof (cases "find (\<lambda>w. take (length w) s = w) tbl")
    case None
    then have "strip_front tbl s = s" by (subst strip_front.simps) simp
    with None 1(3) show ?thesis by (auto simp: find_None_iff)
  next
    case (Some v)
    then have "v \<in> set tbl" by (auto simp: find_Some_iff)
    with 1(2) have ne: "v \<noteq> []" by auto
    with Some have "strip_front tbl s = strip_front tbl (drop (length v) s)"
      by (subst strip_front.simps) simp
    with 1(1) [OF Some ne 1(2) 1(3)] show ?thesis by simp
  qed
qed

lemma py_strip_take: "\<exists>n k. py_strip s = take k (drop n s)"
proof -
  define a where "a = strip_front whitespace_utf8 s"
  obtain n where n: "a = drop n s"
    unfolding a_def using strip_front_suffix by blast
  obtain m where b: "strip_front (map rev whitespace_utf8) (rev a) = drop m (rev a)"
    using strip_front_suffix by blast
  have "py_strip s = take (length a - m) a"
    by (simp only: py_strip_def a_def [symmetric] b rev_drop rev_rev_ident length_rev)
  then have "py_strip s = take (length a - m) (drop n s)" by (simp only: n [symmetric])
  then show ?thesis by blast
qed

lemma py_strip_subset: "set (py_strip s) \<subseteq> set s"
proof -
  obtain n k where "py_strip s = take k (drop n s)" using py_strip_take by blast
  then show ?thesis by (metis set_take_subset set_drop_subset subset_trans)
qed

lemma py_strip_hd: "py_strip s \<noteq> [] \<Longrightarrow> hd (py_strip s) \<noteq> CHR '' ''"
proof -
  assume ne: "py_strip s \<noteq> []"
  define a where "a = strip_front whitespace_utf8 s"
  obtain m where b: "strip_front (map rev whitespace_utf8) (rev a) = drop m (rev a)"
    using strip_front_suffix by blast
  have p: "py_strip s = take (length a - m) a"
    by (simp only: py_strip_def a_def [symmetric] b rev_drop rev_rev_ident length_rev)
  with ne have "a \<noteq> []" and "0 < length a - m" by auto
  then have h: "hd (py_strip s) = hd a" by (simp add: p)
  have "take (length [CHR '' '']) a \<noteq> [CHR '' '']"
    unfolding a_def by (rule strip_front_no_prefix) (simp_all add: whitespace_utf8_def)
  with \<open>a \<noteq> []\<close> have "hd a \<noteq> CHR '' ''" by (cases a) auto
  with h show ?thesis by simp
qed

lemma py_strip_last: "py_strip s \<noteq> [] \<Longrightarrow> last (py_strip s) \<noteq> CHR '' ''"
proof -
  assume ne: "py_strip s \<noteq> []"
  define b where "b = strip_front (map rev whitespace_utf8) (rev (strip_front whitespace_utf8 s))"
  have p: "py_strip s = rev b" by (simp add: py_strip_def b_def)
  with ne have bne: "b \<noteq> []" by simp
  have "take (length [CHR '' '']) b \<noteq> [CHR '' '']"
    unfolding b_def by (rule strip_front_no_prefix) (simp_all add: whitespace_utf8_def)
  with bne have "hd b \<noteq> CHR '' ''" by (cases b) auto
  with bne show ?thesis by (simp add: p last_rev)
qed

lemma keep_item_chars:
  "c \<in> set (keep_item t) \<Longrightarrow> py_isalnum c \<or> c \<in> {CHR '' '', CHR ''-'', CHR ''_''}"
  by (auto simp: keep_item_def py_str_isalnum_def list_all_iff split: if_splits)

lemma cleaned_name_chars:
  "c \<in> set (cleaned_name items) \<Longrightarrow> py_isalnum c \<or> c \<in> {CHR '' '', CHR ''-'', CHR ''_''}"
proof -
  assume "c \<in> set (cleaned_name items)"
  then have "c \<in> set (concat (map keep_item items))"
    unfolding cleaned_name_def using py_strip_subset by (rule rev_subsetD)
  then obtain t where "c \<in> set (keep_item t)" by auto
  then show ?thesis by (rule keep_item_chars)
qed

lemma py_lower_char_sep:
  "py_lower_char (CHR ''_'') = CHR ''_''" "py_lower_char (CHR ''-'') = CHR ''-''"
  by (simp_all add: py_lower_char_def ascii_uppercase_def ascii_lowercase_def)


subsection \<open>Folder slug\<close>

text \<open>
  Claim C6 as written does not hold. The title \<^verbatim>\<open>Two-Sum\<close> has the slug
  \<^verbatim>\<open>two-sum\<close>: the hyphen is one of the three separators the generator expression keeps, and nothing later removes it. The slug
  is therefore not made of lowercase alphanumerics and underscores only.
\<close>

theorem sanitize_folder_name_hyphen_counterexample:
  "\<not> (\<forall>c \<in> set (sanitize_folder_name ''Two-Sum''). c \<in> slug_charset)"
  by code_simp

text \<open>
  Claim C6, as the code has it. For every ASCII title, the slug produced by
  \<^verbatim>\<open>sanitize_folder_name\<close> contains only lowercase letters, digits, underscores and
  hyphens. It is the retained and trimmed text of the title, character by character,
  with each space turned into an underscore and each letter lowercased; that text
  neither starts nor ends with a space, so an underscore at either end of the slug is
  an underscore of the title and never a converted space. The slug is a function of the
  title alone, hence the same title always yields the same slug.
\<close>

theorem sanitize_folder_name_slug:
  assumes "list_all is_ascii name"
  shows "(\<forall>c \<in> set (sanitize_folder_name name). c \<in> slug_charset \<union> {CHR ''-''})
    \<and> sanitize_folder_name name =
        map (\<lambda>c. py_lower_char (if c = CHR '' '' then CHR ''_'' else c)) (cleaned_name (code_points name))
    \<and> (cleaned_name (code_points name) \<noteq> [] \<longrightarrow>
          hd (cleaned_name (code_points name)) \<noteq> CHR '' ''
        \<and> last (cleaned_name (code_points name)) \<noteq> CHR '' '')"
proof (intro conjI ballI impI)
  show eq: "sanitize_folder_name name =
      map (\<lambda>c. py_lower_char (if c = CHR '' '' then CHR ''_'' else c)) (cleaned_name (code_points name))"
    by (simp add: sanitize_folder_name_def sanitize_items_def py_lower_def py_replace_char_def)
  fix c assume "c \<in> set (sanitize_folder_name name)"
  then obtain d where d: "d \<in> set (cleaned_name (code_points name))"
    and c: "c = py_lower_char (if d = CHR '' '' then CHR ''_'' else d)"
    unfolding eq by auto
  from cleaned_name_chars [OF d] show "c \<in> slug_charset \<union> {CHR ''-''}"
    using py_lower_char_range [of d]
    by (auto simp: c slug_charset_def py_lower_char_sep)
next
  assume "cleaned_name (code_points name) \<noteq> []"
  then show "hd (cleaned_name (code_points name)) \<noteq> CHR '' ''"
    unfolding cleaned_name_def by (rule py_strip_hd)
next
  assume "cleaned_name (code_points name) \<noteq> []"
  then show "last (cleaned_name (code_points name)) \<noteq> CHR '' ''"
    unfolding cleaned_name_def by (rule py_strip_last)
qed

text \<open>The docstring's example, and a title with separators at both ends.\<close>

theorem sanitize_folder_name_slug_witness:
  "list_all is_ascii ''  Stop gninnipS My sdroW! ''
   \<and> set (sanitize_folder_name ''  Stop gninnipS My sdroW! '') \<subseteq> slug_charset \<union> {CHR ''-''}
   \<and> sanitize_folder_name ''  Stop gninnipS My sdroW! '' = ''stop_gninnips_my_sdrow''
   \<and> cleaned_name (code_points ''  Stop gninnipS My sdroW! '') = ''Stop gninnipS My sdroW''"
proof -
  have a: "list_all is_ascii ''  Stop gninnipS My sdroW! ''" by code_simp
  have e: "sanitize_folder_name ''  Stop gninnipS My sdroW! '' = ''stop_gninnips_my_sdrow''"
    by code_simp
  have k: "cleaned_name (code_points ''  Stop gninnipS My sdroW! '') = ''Stop gninnipS My sdroW''"
    by code_simp
  from sanitize_folder_name_slug [OF a]
  have "\<forall>c \<in> set (sanitize_folder_name ''  Stop gninnipS My sdroW! ''). c \<in> slug_charset \<union> {CHR ''-''}"
    by (rule conjunct1)
  then have "set (sanitize_folder_name ''  Stop gninnipS My sdroW! '') \<subseteq> slug_charset \<union> {CHR ''-''}"
    by blast
  with a e k show ?thesis by (intro conjI)
qed

subsection \<open>Function name\<close>

text \<open>
  Claim C7. For every title, \<^verbatim>\<open>generate_function_name\<close> works on the surviving tokens
  of the title, which are its maximal runs of characters of \<^verbatim>\<open>[a-zA-Z0-9]\<close>: every
  token is non-empty and alphanumeric, and together they are the alphanumeric
  characters of the title in order. The tokens are lowercased and joined with
  underscores; the result is prefixed with \<^verbatim>\<open>kata_\<close> exactly when the joined text
  starts with a digit and is returned as joined otherwise. The returned name never
  starts with a digit.
\<close>

theorem generate_function_name_tokens:
  "(\<forall>w \<in> set (alnum_runs [] name). w \<noteq> [] \<and> list_all re_alnum w)
   \<and> concat (alnum_runs [] name) = filter re_alnum name
   \<and> generate_function_name name =
       (let joined = py_join ''_'' (map py_lower (alnum_runs [] name))
        in if joined \<noteq> [] \<and> py_isdigit (hd joined) then ''kata_'' @ joined else joined)
   \<and> \<not> (generate_function_name name \<noteq> [] \<and> py_isdigit (hd (generate_function_name name)))"
proof (intro conjI)
  show "\<forall>w \<in> set (alnum_runs [] name). w \<noteq> [] \<and> list_all re_alnum w"
    using alnum_runs_tokens [of "[]"] by simp
next
  show "concat (alnum_runs [] name) = filter re_alnum name" by (simp add: alnum_runs_concat)
next
  show "generate_function_name name =
       (let joined = py_join ''_'' (map py_lower (alnum_runs [] name))
        in if joined \<noteq> [] \<and> py_isdigit (hd joined) then ''kata_'' @ joined else joined)"
    by (simp add: generate_function_name_def re_split_runs Let_def)
next
  show "\<not> (generate_function_name name \<noteq> [] \<and> py_isdigit (hd (generate_function_name name)))"
    by (simp add: generate_function_name_def Let_def py_isdigit_def ascii_digits_def)
qed

text \<open>The two examples of the docstring.\<close>

theorem generate_function_name_tokens_witness:
  "alnum_runs [] ''123 Numbers'' = [''123'', ''Numbers'']
   \<and> generate_function_name ''123 Numbers'' = ''kata_123_numbers''
   \<and> generate_function_name ''Valid Braces'' = ''valid_braces''"
proof -
  have r1: "alnum_runs [] ''123 Numbers'' = [''123'', ''Numbers'']"
    by code_simp
  have v1: "(let joined = py_join ''_'' (map py_lower [''123'', ''Numbers''])
        in if joined \<noteq> [] \<and> py_isdigit (hd joined) then ''kata_'' @ joined else joined)
      = ''kata_123_numbers''"
    by code_simp
  have r2: "alnum_runs [] ''Valid Braces'' = [''Valid'', ''Braces'']"
    by code_simp
  have v2: "(let joined = py_join ''_'' (map py_lower [''Valid'', ''Braces''])
        in if joined \<noteq> [] \<and> py_isdigit (hd joined) then ''kata_'' @ joined else joined)
      = ''valid_braces''"
    by code_simp
  from generate_function_name_tokens [of "''123 Numbers''"]
  have "generate_function_name ''123 Numbers'' =
      (let joined = py_join ''_'' (map py_lower (alnum_runs [] ''123 Numbers''))
        in if joined \<noteq> [] \<and> py_isdigit (hd joined) then ''kata_'' @ joined else joined)"
    by blast
  then have g1: "generate_function_name ''123 Numbers'' = ''kata_123_numbers''"
    by (simp only: r1 v1)
  from generate_function_name_tokens [of "''Valid Braces''"]
  have "generate_function_name ''Valid Braces'' =
      (let joined = py_join ''_'' (map py_lower (alnum_runs [] ''Valid Braces''))
        in if joined \<noteq> [] \<and> py_isdigit (hd joined) then ''kata_'' @ joined else joined)"
    by blast
  then have g2: "generate_function_name ''Valid Braces'' = ''valid_braces''"
    by (simp only: r2 v2)
  from r1 g1 g2 show ?thesis by (intro conjI)
qed

section \<open>Properties of the catalog client\<close>










section \<open>Properties of the identifier extraction\<close>

lemma takeWhile_nonempty: "(takeWhile P xs \<noteq> []) = (xs \<noteq> [] \<and> P (hd xs))"
  by (cases xs) auto

lemma match_kata_path_None: "(match_kata_path t = None) = (\<not> starts_kata_segment t)"
  by (auto simp: match_kata_path_def starts_kata_segment_def takeWhile_nonempty hd_drop_conv_nth)

lemma match_hex24_None: "(match_hex24 t = None) = (\<not> starts_hex24 t)"
  by (simp add: match_hex24_def starts_hex24_def)

lemma match_here_None:
  "(match_here t = None) = (\<not> starts_kata_segment t \<and> \<not> starts_hex24 t)"
  using match_kata_path_None [of t] match_hex24_None [of t]
  by (auto simp: match_here_def split: option.splits)

lemma re_search_here: "match_here t = Some m \<Longrightarrow> re_search_kata_id t = Some m"
  by (cases t) simp_all

lemma no_match_before_Suc:
  "no_match_before (Suc n) (c # cs) =
     (\<not> starts_kata_segment (c # cs) \<and> \<not> starts_hex24 (c # cs) \<and> no_match_before n cs)"
proof -
  have "[0 ..< Suc n] = 0 # map Suc [0 ..< n]"
    by (simp add: upt_conv_Cons map_Suc_upt del: upt_Suc)
  then show ?thesis
    unfolding no_match_before_def by (simp add: list.pred_map comp_def del: upt_Suc)
qed

lemma re_search_skip:
  "no_match_before (length pre) (pre @ t) \<Longrightarrow> re_search_kata_id (pre @ t) = re_search_kata_id t"
proof (induction pre)
  case Nil
  show ?case by simp
next
  case (Cons c pre)
  from Cons.prems have here: "match_here (c # pre @ t) = None"
    and rest: "no_match_before (length pre) (pre @ t)"
    by (simp_all add: no_match_before_Suc match_here_None)
  from here rest Cons.IH show ?case by simp
qed

lemma re_search_none:
  "no_match_before (Suc (length s)) s \<Longrightarrow> re_search_kata_id s = None"
proof (induction s)
  case Nil
  then show ?case by (simp add: no_match_before_def match_here_None)
next
  case (Cons c s)
  from Cons.prems have here: "match_here (c # s) = None"
    and rest: "no_match_before (Suc (length s)) s"
    by (simp_all add: no_match_before_Suc match_here_None)
  from here Cons.IH [OF rest] show ?case by simp
qed

lemma match_kata_path_run:
  assumes "h \<noteq> []" "list_all is_hex h" "rest = [] \<or> \<not> is_hex (hd rest)"
  shows "match_kata_path (''kata/'' @ h @ rest) = Some h"
proof -
  from assms(2,3) have "takeWhile is_hex (h @ rest) = h"
    by (cases rest) (auto simp: list_all_iff takeWhile_append2 intro: takeWhile_eq_all_conv [THEN iffD2])
  with assms(1) show ?thesis by (simp add: match_kata_path_def)
qed

lemma match_here_hex24:
  assumes "length g = 24" "list_all is_hex g"
  shows "match_here (g @ rest) = Some (Group2 g)"
proof -
  from assms obtain c cs where g: "g = c # cs" and c: "is_hex c" by (cases g) auto
  from c have "c \<noteq> CHR ''k''" by (auto simp: is_hex_def)
  then have "match_kata_path (g @ rest) = None" by (simp add: match_kata_path_def g)
  moreover from assms have "match_hex24 (g @ rest) = Some g" by (simp add: match_hex24_def)
  ultimately show ?thesis by (simp add: match_here_def)
qed

text \<open>
  Claim C9 as written does not hold. The input below contains the path segment
  \<^verbatim>\<open>kata/abc\<close>, yet the identifier is the bare 24-character run that stands before it:
  the search returns the leftmost match, whichever alternative gives it.
\<close>

theorem extract_kata_id_leftmost_counterexample:
  "extract_kata_id ''5277c8a221e209d3f6000b56 kata/abc'' = ''5277c8a221e209d3f6000b56''
   \<and> extract_kata_id ''5277c8a221e209d3f6000b56 kata/abc'' \<noteq> ''abc''"
  by code_simp

text \<open>
  Claim C9, as the code has it. The identifier passed to the detail fetch comes from
  the leftmost match in the input. When the input is \<open>pre @ ''kata/'' @ h @ rest\<close> with
  \<open>h\<close> a complete, non-empty hexadecimal run and no match of either kind starts within
  \<open>pre\<close>, the identifier is \<open>h\<close>. When the input is \<open>pre' @ g @ rest'\<close> with \<open>g\<close> of 24
  hexadecimal characters and no match of either kind starts within \<open>pre'\<close>, the identifier
  is \<open>g\<close>. When no match starts anywhere in the input, the identifier is the input with
  the surrounding whitespace stripped.
\<close>

theorem extract_kata_id_leftmost:
  "(h \<noteq> [] \<and> list_all is_hex h \<and> (rest = [] \<or> \<not> is_hex (hd rest))
      \<and> no_match_before (length pre) (pre @ ''kata/'' @ h @ rest)
      \<longrightarrow> extract_kata_id (pre @ ''kata/'' @ h @ rest) = h)
   \<and> (length g = 24 \<and> list_all is_hex g \<and> no_match_before (length pre') (pre' @ g @ rest')
      \<longrightarrow> extract_kata_id (pre' @ g @ rest') = g)
   \<and> (no_match_before (Suc (length s)) s \<longrightarrow> extract_kata_id s = py_strip s)"
proof (intro conjI impI)
  assume a: "h \<noteq> [] \<and> list_all is_hex h \<and> (rest = [] \<or> \<not> is_hex (hd rest))
      \<and> no_match_before (length pre) (pre @ ''kata/'' @ h @ rest)"
  then have "match_kata_path (''kata/'' @ h @ rest) = Some h"
    using match_kata_path_run by blast
  then have "match_here (''kata/'' @ h @ rest) = Some (Group1 h)" by (simp add: match_here_def)
  then have "re_search_kata_id (''kata/'' @ h @ rest) = Some (Group1 h)" by (rule re_search_here)
  with a have "re_search_kata_id (pre @ ''kata/'' @ h @ rest) = Some (Group1 h)"
    using re_search_skip [of pre "''kata/'' @ h @ rest"] by simp
  then show "extract_kata_id (pre @ ''kata/'' @ h @ rest) = h" by (simp add: extract_kata_id_def)
next
  assume a: "length g = 24 \<and> list_all is_hex g \<and> no_match_before (length pre') (pre' @ g @ rest')"
  then have "match_here (g @ rest') = Some (Group2 g)" using match_here_hex24 by blast
  then have "re_search_kata_id (g @ rest') = Some (Group2 g)" by (rule re_search_here)
  with a have "re_search_kata_id (pre' @ g @ rest') = Some (Group2 g)"
    using re_search_skip [of pre' "g @ rest'"] by simp
  then show "extract_kata_id (pre' @ g @ rest') = g" by (simp add: extract_kata_id_def)
next
  assume "no_match_before (Suc (length s)) s"
  then have "re_search_kata_id s = None" by (rule re_search_none)
  then show "extract_kata_id s = py_strip s" by (simp add: extract_kata_id_def)
qed

text \<open>The two inputs of the docstring, and a slug that matches nothing.\<close>

theorem extract_kata_id_leftmost_witness:
  "extract_kata_id ''https://www.codewars.com/kata/5277c8a221e209d3f6000b56/train/python''
     = ''5277c8a221e209d3f6000b56''
   \<and> extract_kata_id ''id 5277c8a221e209d3f6000b56''  = ''5277c8a221e209d3f6000b56''
   \<and> extract_kata_id ''  valid-braces '' = ''valid-braces''"
proof -
  note t = extract_kata_id_leftmost [where h = "''5277c8a221e209d3f6000b56''"
      and rest = "''/train/python''" and pre = "''https://www.codewars.com/''"
      and g = "''5277c8a221e209d3f6000b56''" and pre' = "''id ''" and rest' = "[]"
      and s = "''  valid-braces ''"]
  have h1: "''5277c8a221e209d3f6000b56'' \<noteq> [] \<and> list_all is_hex ''5277c8a221e209d3f6000b56''
      \<and> (''/train/python'' = [] \<or> \<not> is_hex (hd ''/train/python''))
      \<and> no_match_before (length ''https://www.codewars.com/'')
           (''https://www.codewars.com/'' @ ''kata/'' @ ''5277c8a221e209d3f6000b56'' @ ''/train/python'')"
    by code_simp
  have h2: "length ''5277c8a221e209d3f6000b56'' = 24 \<and> list_all is_hex ''5277c8a221e209d3f6000b56''
      \<and> no_match_before (length ''id '') (''id '' @ ''5277c8a221e209d3f6000b56'' @ [])"
    by code_simp
  have h3: "no_match_before (Suc (length ''  valid-braces '')) ''  valid-braces ''"
    by code_simp
  have s3: "py_strip ''  valid-braces '' = ''valid-braces''" by code_simp
  from t h1 have g1: "extract_kata_id (''https://www.codewars.com/'' @ ''kata/''
      @ ''5277c8a221e209d3f6000b56'' @ ''/train/python'') = ''5277c8a221e209d3f6000b56''"
    by blast
  from t h2 have g2: "extract_kata_id (''id '' @ ''5277c8a221e209d3f6000b56'' @ [])
      = ''5277c8a221e209d3f6000b56''" by blast
  from t h3 have g3: "extract_kata_id ''  valid-braces '' = py_strip ''  valid-braces ''" by blast
  from g1 g2 g3 s3 show ?thesis by simp
qed

section \<open>Properties of the tool surface\<close>













section \<open>The check for a failed fetch of the history\<close>

text \<open>
  \<^verbatim>\<open>fetch_user_completed\<close> reports a failure as a list that holds one error dictionary
  (its docstring says so, and every handler returns one). Both callers test
  \<^verbatim>\<open>"error" in completed_katas_data\<close>, which asks whether the string is an element of
  that list: it is not, so the test never finds a reported failure.
\<close>

lemma error_list_not_detected: "py_contains ''error'' (JArr [error_dict message]) = Inr False"
  by (simp add: error_dict_def)

text \<open>
  Claim C1, evaluated on a world with a saved history, where every request times out.
  The fetch returns the error list; the synchronisation writes that list over the saved
  history, fails to read an identifier from it and returns no identifiers;
  \<^verbatim>\<open>practice_python\<close> then reads the history file, which now holds the error list, and
  returns the message for an unreadable cache. No candidate is selected, and the saved
  history is lost.
\<close>

theorem practice_python_stalled_evaluation:
  "fetch_user_completed stalled_world ''u'' 0
     = Inr (JArr [error_dict (completed_timeout_message ''u'')])
   \<and> history_doc stalled_world = Some (Doc sample_completed)
   \<and> fst (sync_history_internal stalled_world (JStr ''u'')) = Inr []
   \<and> history_doc (snd (sync_history_internal stalled_world (JStr ''u'')))
     = Some (Doc (JArr [error_dict (completed_timeout_message ''u'')]))
   \<and> fst (practice_python stalled_world) = Inr (cache_error_message (str_exn (KeyError ''id'')))
   \<and> history_doc (snd (practice_python stalled_world))
     = Some (Doc (JArr [error_dict (completed_timeout_message ''u'')]))"
  by code_simp

text \<open>
  Claim C2, evaluated on the same world. \<^verbatim>\<open>update_progress\<close> does not return the message
  of the failed fetch: it writes the error list over the saved history and reports one
  exercise synchronised.
\<close>

theorem update_progress_stalled_evaluation:
  "fetch_user_completed stalled_world ''u'' 0
     = Inr (JArr [error_dict (completed_timeout_message ''u'')])
   \<and> fst (update_progress stalled_world None) = Inr (sync_ok_message 1)
   \<and> sync_ok_message 1 \<noteq> connect_failed_message (completed_timeout_message ''u'')
   \<and> history_doc (snd (update_progress stalled_world None))
     = Some (Doc (JArr [error_dict (completed_timeout_message ''u'')]))"
  by code_simp

section \<open>Properties of the materializer\<close>




lemma write_text_Inr:
  "write_text w p content = Inr w2 \<Longrightarrow>
     files w2 = (files w)(p \<mapsto> content) \<and> dirs w2 = dirs w \<and> denied w2 = denied w"
  by (auto simp: write_text_def split: option.splits if_splits)

lemma write_solution_Inr:
  "write_solution w p name_text rank_name url_text function_name = Inr w3 \<Longrightarrow>
     dirs w3 = dirs w
     \<and> files w3 = (if path_exists w p
                    then files w
                    else (files w)(p \<mapsto> solution_template name_text rank_name url_text function_name))"
  by (auto simp: write_solution_def dest: write_text_Inr split: if_splits)








lemma py_getitem_absent: "map_of kvs key = None \<Longrightarrow> py_getitem (JObj kvs) key = Inl (KeyError key)"
  by simp

lemma py_getitem_present: "map_of kvs key \<noteq> None \<Longrightarrow> \<exists>v. py_getitem (JObj kvs) key = Inr v"
  by auto






section \<open>Properties of the selection\<close>

lemma filter_exn_Inr:
  "filter_exn p xs = Inr ys \<Longrightarrow> ys = filter (\<lambda>x. p x = Inr True) xs"
  by (induction xs arbitrary: ys) (auto split: sum.splits)

lemma available_katas_Inr:
  "available_katas full_kata_index completed = Inr available \<Longrightarrow>
     \<exists>katas. py_iter full_kata_index = Inr katas
       \<and> available = filter (\<lambda>kata. not_completed completed kata = Inr True) katas"
  by (auto simp: available_katas_def split: sum.splits dest: filter_exn_Inr)

lemma not_completed_str:
  "py_getitem kata ''id'' = Inr (JStr s) \<Longrightarrow>
     not_completed completed kata = Inr (JStr s \<notin> set completed)"
  by (simp add: not_completed_def)

lemma practice_select_available:
  assumes "index_doc w = Some (Doc full_kata_index)"
    and "available_katas full_kata_index completed = Inr available"
  shows "practice_select w completed =
           (if available = [] then (Inr all_done_message, w)
            else practice_fetch w (available ! (random_draw w mod length available)))"
  using assms by (simp add: practice_select_def random_choice_def)

lemma all_done_no_error: "all_done_message \<noteq> practice_python_except e"
  by (cases e) (simp_all add: all_done_message_def error_mark_def)

text \<open>
  Claim C4. Let the index file hold a document from which the candidates can be
  computed. The candidates are the entries of the index, in their order, whose
  identifier is not in the completed set; for an entry whose identifier is a string
  that is precisely the test that the string is not a member of the set. When there is
  no candidate, \<^verbatim>\<open>practice_python\<close> returns the all-done message, which is a normal
  return and differs from every message of the exception handlers. When there is one
  candidate, it is the one selected, whatever number is drawn. Otherwise the candidate
  selected is the one at the position drawn, which lies within the list, and every
  position of the list is selected by exactly the draw of that position: a uniform draw
  gives a uniform choice among the candidates.
\<close>

theorem practice_select_candidates:
  assumes "index_doc w = Some (Doc full_kata_index)"
    and "available_katas full_kata_index completed = Inr available"
  shows "(\<exists>katas. py_iter full_kata_index = Inr katas
            \<and> available = filter (\<lambda>kata. not_completed completed kata = Inr True) katas)
     \<and> (\<forall>kata s. py_getitem kata ''id'' = Inr (JStr s) \<longrightarrow>
            not_completed completed kata = Inr (JStr s \<notin> set completed))
     \<and> (available = [] \<longrightarrow>
            practice_select w completed = (Inr all_done_message, w)
          \<and> (\<forall>e. all_done_message \<noteq> practice_python_except e))
     \<and> (\<forall>kata. available = [kata] \<longrightarrow> practice_select w completed = practice_fetch w kata)
     \<and> (available \<noteq> [] \<longrightarrow>
            practice_select w completed =
              practice_fetch w (available ! (random_draw w mod length available))
          \<and> random_draw w mod length available < length available)
     \<and> (\<forall>i < length available.
            practice_select (w\<lparr>random_draw := i\<rparr>) completed =
              practice_fetch (w\<lparr>random_draw := i\<rparr>) (available ! i))"
proof (intro conjI allI impI)
  show "\<exists>katas. py_iter full_kata_index = Inr katas
      \<and> available = filter (\<lambda>kata. not_completed completed kata = Inr True) katas"
    using assms(2) by (rule available_katas_Inr)
next
  fix kata s assume "py_getitem kata ''id'' = Inr (JStr s)"
  then show "not_completed completed kata = Inr (JStr s \<notin> set completed)"
    by (rule not_completed_str)
next
  assume "available = []"
  then show "practice_select w completed = (Inr all_done_message, w)"
    using practice_select_available [OF assms] by simp
next
  fix e show "all_done_message \<noteq> practice_python_except e" by (rule all_done_no_error)
next
  fix kata assume "available = [kata]"
  then show "practice_select w completed = practice_fetch w kata"
    using practice_select_available [OF assms] by simp
next
  assume "available \<noteq> []"
  then show "practice_select w completed =
      practice_fetch w (available ! (random_draw w mod length available))"
    using practice_select_available [OF assms] by simp
next
  assume "available \<noteq> []"
  then show "random_draw w mod length available < length available" by simp
next
  fix i assume i: "i < length available"
  have "index_doc (w\<lparr>random_draw := i\<rparr>) = Some (Doc full_kata_index)"
    using assms(1) by simp
  from practice_select_available [OF this assms(2)] i
  show "practice_select (w\<lparr>random_draw := i\<rparr>) completed =
      practice_fetch (w\<lparr>random_draw := i\<rparr>) (available ! i)"
    by auto
qed

text \<open>
  The example of the specification: the index lists \<^verbatim>\<open>a1\<close> and \<^verbatim>\<open>b2\<close>. With \<^verbatim>\<open>a1\<close>
  completed the only candidate is \<^verbatim>\<open>b2\<close>, which is selected and materialized; with both
  completed the outcome is the all-done message. The first is what \<^verbatim>\<open>practice_python\<close>
  returns in the sample world, where the service reports \<^verbatim>\<open>a1\<close> as completed.
\<close>

theorem practice_select_candidates_witness:
  "available_katas sample_index [JStr ''a1''] = Inr [two_sum_entry]
   \<and> fst (practice_select sample_world [JStr ''a1''])
     = Inr (ready_message origin_automatic ''Two Sum'' ''/srv/exercises/6kyu_python_two_sum''
              ''two_sum'')
   \<and> fst (practice_select (sample_world\<lparr>random_draw := 7\<rparr>) [JStr ''a1''])
     = Inr (ready_message origin_automatic ''Two Sum'' ''/srv/exercises/6kyu_python_two_sum''
              ''two_sum'')
   \<and> available_katas sample_index [JStr ''a1'', JStr ''b2''] = Inr []
   \<and> practice_select sample_world [JStr ''a1'', JStr ''b2''] = (Inr all_done_message, sample_world)
   \<and> fst (practice_python sample_world)
     = Inr (ready_message origin_automatic ''Two Sum'' ''/srv/exercises/6kyu_python_two_sum''
              ''two_sum'')"
proof -
  have i: "index_doc sample_world = Some (Doc sample_index)"
    by (simp add: sample_world_def)
  have i7: "index_doc (sample_world\<lparr>random_draw := 7\<rparr>) = Some (Doc sample_index)"
    by (simp add: sample_world_def)
  have a1: "available_katas sample_index [JStr ''a1''] = Inr [two_sum_entry]" by code_simp
  have a2: "available_katas sample_index [JStr ''a1'', JStr ''b2''] = Inr []" by code_simp
  have f: "fst (practice_fetch sample_world two_sum_entry)
      = Inr (ready_message origin_automatic ''Two Sum'' ''/srv/exercises/6kyu_python_two_sum''
               ''two_sum'')"
    by code_simp
  have f7: "fst (practice_fetch (sample_world\<lparr>random_draw := 7\<rparr>) two_sum_entry)
      = Inr (ready_message origin_automatic ''Two Sum'' ''/srv/exercises/6kyu_python_two_sum''
               ''two_sum'')"
    by code_simp
  have p: "fst (practice_python sample_world)
      = Inr (ready_message origin_automatic ''Two Sum'' ''/srv/exercises/6kyu_python_two_sum''
               ''two_sum'')"
    by code_simp
  from practice_select_candidates [OF i a1]
  have "practice_select sample_world [JStr ''a1''] = practice_fetch sample_world two_sum_entry"
    by blast
  with f have s1: "fst (practice_select sample_world [JStr ''a1''])
      = Inr (ready_message origin_automatic ''Two Sum'' ''/srv/exercises/6kyu_python_two_sum''
               ''two_sum'')"
    by simp
  from practice_select_candidates [OF i7 a1]
  have "practice_select (sample_world\<lparr>random_draw := 7\<rparr>) [JStr ''a1'']
      = practice_fetch (sample_world\<lparr>random_draw := 7\<rparr>) two_sum_entry"
    by blast
  with f7 have s7: "fst (practice_select (sample_world\<lparr>random_draw := 7\<rparr>) [JStr ''a1''])
      = Inr (ready_message origin_automatic ''Two Sum'' ''/srv/exercises/6kyu_python_two_sum''
               ''two_sum'')"
    by simp
  from practice_select_candidates [OF i a2]
  have s2: "practice_select sample_world [JStr ''a1'', JStr ''b2'']
      = (Inr all_done_message, sample_world)"
    by blast
  from a1 s1 s7 a2 s2 p show ?thesis by (intro conjI)
qed

end
